theory Spec2Isabelle
  imports Complex_Main "HOL-Library.Char_ord" "HOL-Library.List_Lexorder" "HOL-Library.Sublist"
begin

section \<open>Strings\<close>

text \<open>
  A Python \<open>str\<close> is modelled as a \<open>string\<close>, each \<open>char\<close> read as a code point
  below 256. On such strings the order of \<open>HOL-Library.List_Lexorder\<close> over
  \<open>HOL-Library.Char_ord\<close> is the order of SQLite's BINARY collation (bytewise comparison of
  the UTF-8 encoding, a proper prefix first), which \<open>ORDER BY name\<close> uses.
\<close>

text \<open>
  \<open>str.strip()\<close> removes leading and trailing whitespace. The code points below 256 for
  which \<open>str.isspace()\<close> holds are 9 to 13, 28 to 32, 133 and 160.
\<close>

definition is_space :: "char \<Rightarrow> bool" where
  "is_space c = ((of_char c :: nat) \<in> {9, 10, 11, 12, 13, 28, 29, 30, 31, 32, 133, 160})"

definition strip :: "string \<Rightarrow> string" where
  "strip s = rev (dropWhile is_space (rev (dropWhile is_space s)))"

text \<open>
  What "with leading and trailing whitespace removed" means, independently of \<open>strip\<close>:
  \<open>t\<close> is \<open>s\<close> without a whitespace-only prefix and a whitespace-only suffix, and \<open>t\<close>
  neither starts nor ends with whitespace.
\<close>

definition trimmed_of :: "string \<Rightarrow> string \<Rightarrow> bool" where
  "trimmed_of s t =
     ((\<exists>l r. s = l @ t @ r \<and> list_all is_space l \<and> list_all is_space r) \<and>
      (t = [] \<or> (\<not> is_space (hd t) \<and> \<not> is_space (last t))))"

section \<open>Python floats\<close>

text \<open>
  A Python \<open>float\<close>, which is also the value of a \<open>REAL\<close> column: a binary64 number,
  written as the \<open>real\<close> it denotes, an infinity or NaN. The two zeros are not told
  apart. Every comparison with NaN is false.
\<close>

datatype pyfloat = Finite real | PosInf | NegInf | NaN

fun float_lt :: "pyfloat \<Rightarrow> pyfloat \<Rightarrow> bool" where
  "float_lt NaN _ = False"
| "float_lt _ NaN = False"
| "float_lt (Finite x) (Finite y) = (x < y)"
| "float_lt (Finite _) PosInf = True"
| "float_lt (Finite _) NegInf = False"
| "float_lt PosInf _ = False"
| "float_lt NegInf NegInf = False"
| "float_lt NegInf _ = True"

definition float_gt :: "pyfloat \<Rightarrow> pyfloat \<Rightarrow> bool" where
  "float_gt a b = float_lt b a"

fun float_le :: "pyfloat \<Rightarrow> pyfloat \<Rightarrow> bool" where
  "float_le NaN _ = False"
| "float_le _ NaN = False"
| "float_le (Finite x) (Finite y) = (x \<le> y)"
| "float_le NegInf _ = True"
| "float_le _ PosInf = True"
| "float_le _ _ = False"

fun float_neg :: "pyfloat \<Rightarrow> pyfloat" where
  "float_neg (Finite x) = Finite (- x)"
| "float_neg PosInf = NegInf"
| "float_neg NegInf = PosInf"
| "float_neg NaN = NaN"

fun float_abs :: "pyfloat \<Rightarrow> pyfloat" where
  "float_abs (Finite x) = Finite \<bar>x\<bar>"
| "float_abs PosInf = PosInf"
| "float_abs NegInf = PosInf"
| "float_abs NaN = NaN"

fun is_finite :: "pyfloat \<Rightarrow> bool" where
  "is_finite (Finite _) = True"
| "is_finite _ = False"

subsection \<open>Rounding to binary64\<close>

text \<open>
  The binary64 number nearest to a real, a tie going to the even significand; beyond
  the largest finite number the result is an infinity. A number \<open>a > 0\<close> with
  \<open>2 ^ e \<le> a < 2 ^ (e + 1)\<close> is rounded to a multiple of \<open>2 ^ (e - 52)\<close>, where \<open>e\<close>
  is not taken below -1022 (the subnormal numbers).
\<close>

fun bit_length :: "nat \<Rightarrow> nat" where
  "bit_length n = (if n = 0 then 0 else Suc (bit_length (n div 2)))"

declare bit_length.simps [simp del]

definition pow2 :: "int \<Rightarrow> real" where
  "pow2 k = (if 0 \<le> k then 2 ^ nat k else 1 / 2 ^ nat (- k))"

definition floor_log2 :: "real \<Rightarrow> int" where
  "floor_log2 a =
     (if 1 \<le> a then int (bit_length (nat \<lfloor>a\<rfloor>)) - 1
      else - int (bit_length (nat (\<lceil>1 / a\<rceil> - 1))))"

definition round_half_even :: "real \<Rightarrow> int" where
  "round_half_even y =
     (let n = \<lfloor>y\<rfloor>; f = y - of_int n
      in if f < 1 / 2 then n else if 1 / 2 < f then n + 1 else if even n then n else n + 1)"

definition round64 :: "real \<Rightarrow> pyfloat" where
  "round64 x =
     (if x = 0 then Finite 0
      else let a = \<bar>x\<bar>;
               e = max (floor_log2 a) (- 1022);
               q = pow2 (e - 52);
               r = of_int (round_half_even (a / q)) * q
           in if pow2 1024 \<le> r then (if 0 < x then PosInf else NegInf)
              else Finite (if 0 < x then r else - r))"

subsection \<open>Arithmetic\<close>

text \<open>Addition and subtraction of two floats: the exact result, rounded.\<close>

fun fadd :: "pyfloat \<Rightarrow> pyfloat \<Rightarrow> pyfloat" where
  "fadd NaN _ = NaN"
| "fadd _ NaN = NaN"
| "fadd (Finite x) (Finite y) = round64 (x + y)"
| "fadd PosInf NegInf = NaN"
| "fadd NegInf PosInf = NaN"
| "fadd PosInf _ = PosInf"
| "fadd _ PosInf = PosInf"
| "fadd NegInf _ = NegInf"
| "fadd _ NegInf = NegInf"

definition fsub :: "pyfloat \<Rightarrow> pyfloat \<Rightarrow> pyfloat" where
  "fsub a b = fadd a (float_neg b)"

text \<open>
  \<open>x / n\<close> for a float \<open>x\<close> and the length \<open>n\<close> of a list: \<open>n\<close> becomes a float, exactly
  for every length a list can have, and the quotient is rounded. Both places that divide
  do so by the length of a list they have found non-empty; for \<open>n = 0\<close> Python raises
  \<open>ZeroDivisionError\<close>, and the value given here is not meant.
\<close>

fun py_truediv :: "pyfloat \<Rightarrow> nat \<Rightarrow> pyfloat" where
  "py_truediv (Finite x) n = round64 (x / real n)"
| "py_truediv PosInf n = PosInf"
| "py_truediv NegInf n = NegInf"
| "py_truediv NaN n = NaN"

subsection \<open>Summation\<close>

text \<open>
  The sum of a list of floats is taken in two ways by the libraries the program runs on:
  from left to right, each partial sum rounded, or with Neumaier's compensation, which
  carries the rounding errors along and adds them at the end.
\<close>

datatype summation = Left_to_right | Compensated

text \<open>
  Python's \<open>sum\<close> of a non-empty list of floats. The start value, the integer 0, is
  added to the first item exactly. Before Python 3.12 the items are added from left to
  right; since then with compensation.
\<close>

fun neumaier_loop :: "pyfloat \<Rightarrow> pyfloat \<Rightarrow> pyfloat list \<Rightarrow> pyfloat \<times> pyfloat" where
  "neumaier_loop f c [] = (f, c)"
| "neumaier_loop f c (x # xs) =
     (let t = fadd f x
      in neumaier_loop t
           (fadd c (if float_le (float_abs x) (float_abs f) then fadd (fsub f t) x
                    else fadd (fsub x t) f))
           xs)"

fun python_sum :: "summation \<Rightarrow> pyfloat list \<Rightarrow> pyfloat" where
  "python_sum _ [] = Finite 0"
| "python_sum Left_to_right (x # xs) = foldl fadd x xs"
| "python_sum Compensated (x # xs) =
     (case neumaier_loop x (Finite 0) xs of
        (f, c) \<Rightarrow> if c \<noteq> Finite 0 \<and> is_finite c then fadd f c else f)"

section \<open>The store\<close>

text \<open>
  The two tables of \<open>_init_schema\<close>. A table is the list of its rows in insertion order,
  together with the largest row id the table has ever held (SQLite's \<open>sqlite_sequence\<close>
  entry of an \<open>AUTOINCREMENT\<close> key). The \<open>REAL\<close> column \<open>gpa\<close> holds a finite binary64
  number, written as the \<open>real\<close> it denotes.
\<close>

record student =
  sid :: int
  student_id :: string
  name :: string
  address :: string
  class_name :: string

record term_grade =
  tid :: int
  owner :: int
  term_name :: string
  gpa :: real

record db =
  students :: "student list"
  terms :: "term_grade list"
  students_seq :: int
  terms_seq :: int

definition empty_db :: db where
  "empty_db = \<lparr>students = [], terms = [], students_seq = 0, terms_seq = 0\<rparr>"

text \<open>
  The constraints the schema declares, which SQLite keeps on every state it produces:
  primary keys, \<open>UNIQUE(student_id)\<close>, \<open>UNIQUE(student_id, term_name)\<close>, the foreign key
  of \<open>terms\<close>, and row ids no larger than the recorded sequence value.
\<close>

definition wf_db :: "db \<Rightarrow> bool" where
  "wf_db d =
     (distinct (map sid (students d)) \<and>
      distinct (map student_id (students d)) \<and>
      distinct (map tid (terms d)) \<and>
      distinct (map (\<lambda>t. (owner t, term_name t)) (terms d)) \<and>
      list_all (\<lambda>t. owner t \<in> set (map sid (students d))) (terms d) \<and>
      list_all (\<lambda>s. sid s \<le> students_seq d) (students d) \<and>
      list_all (\<lambda>t. tid t \<le> terms_seq d) (terms d))"

text \<open>
  \<open>sqlite3.IntegrityError\<close> is the only exception the store's statements raise in this
  model; it carries the constraint that failed.
\<close>

datatype constraint =
  UNIQUE_students_student_id
  | UNIQUE_terms_student_id_term_name
  | FOREIGN_KEY
  | NOT_NULL_terms_gpa

datatype error = IntegrityError constraint

text \<open>
  The row id an \<open>AUTOINCREMENT\<close> key gives a new row: one more than the largest id the
  table holds or has ever held.
\<close>

definition next_rowid :: "int list \<Rightarrow> int \<Rightarrow> int" where
  "next_rowid ids seq = fold max ids seq + 1"

text \<open>
  A mutating method returns the exception it raised, if any, and the state of the
  database afterwards. A statement that fails changes nothing, and \<open>commit\<close> is not
  reached.
\<close>

definition add_student :: "db \<Rightarrow> string \<Rightarrow> string \<Rightarrow> string \<Rightarrow> string \<Rightarrow> error option \<times> db" where
  "add_student d student_id' name' address' class_name' =
     (let row = \<lparr>sid = next_rowid (map sid (students d)) (students_seq d),
                 student_id = strip student_id', name = strip name',
                 address = strip address', class_name = strip class_name'\<rparr>
      in if student_id row \<in> set (map student_id (students d))
         then (Some (IntegrityError UNIQUE_students_student_id), d)
         else (None, d\<lparr>students := students d @ [row], students_seq := sid row\<rparr>))"

text \<open>
  \<open>DELETE FROM students WHERE id = ?\<close>, with \<open>PRAGMA foreign_keys = ON\<close>: the
  \<open>ON DELETE CASCADE\<close> of \<open>terms\<close> removes the term rows of each student row deleted,
  so nothing is removed when no student row matches.
\<close>

definition delete_student :: "db \<Rightarrow> int \<Rightarrow> error option \<times> db" where
  "delete_student d student_row_id =
     (if student_row_id \<in> set (map sid (students d))
      then (None, d\<lparr>students := filter (\<lambda>s. sid s \<noteq> student_row_id) (students d),
                     terms := filter (\<lambda>t. owner t \<noteq> student_row_id) (terms d)\<rparr>)
      else (None, d))"

definition list_classes :: "db \<Rightarrow> string list" where
  "list_classes d = sort (remdups (map class_name (students d)))"

definition list_students_by_class :: "db \<Rightarrow> string \<Rightarrow> student list" where
  "list_students_by_class d class_name' =
     sort_key name (filter (\<lambda>s. class_name s = class_name') (students d))"

text \<open>
  SQLite's \<open>LIKE\<close> without an \<open>ESCAPE\<close> clause: in the pattern \<open>%\<close> matches any
  sequence of characters, \<open>_\<close> matches any one character, and any other character
  matches itself, upper and lower case of the ASCII letters being equal. The first
  argument is the pattern. The strings compared are taken to hold no NUL character,
  where SQLite would stop reading them.
\<close>

definition ascii_lower :: "char \<Rightarrow> char" where
  "ascii_lower c =
     (case map_of (zip ''ABCDEFGHIJKLMNOPQRSTUVWXYZ'' ''abcdefghijklmnopqrstuvwxyz'') c of
        None \<Rightarrow> c
      | Some l \<Rightarrow> l)"

fun like :: "string \<Rightarrow> string \<Rightarrow> bool" where
  "like [] s = (s = [])"
| "like (p # ps) [] = (p = CHR ''%'' \<and> like ps [])"
| "like (p # ps) (c # cs) =
     (if p = CHR ''%'' then like ps (c # cs) \<or> like (p # ps) cs
      else (p = CHR ''_'' \<or> ascii_lower p = ascii_lower c) \<and> like ps cs)"

definition search_students_by_class_like :: "db \<Rightarrow> string \<Rightarrow> string \<Rightarrow> student list" where
  "search_students_by_class_like d class_name' q =
     (let like' = ''%'' @ strip q @ ''%''
      in sort_key name
           (filter (\<lambda>s. class_name s = class_name' \<and> (like like' (name s) \<or> like like' (student_id s)))
              (students d)))"

text \<open>\<open>fetchone\<close> gives \<open>None\<close> when no row matches.\<close>

definition get_student :: "db \<Rightarrow> int \<Rightarrow> student option" where
  "get_student d student_row_id = find (\<lambda>s. sid s = student_row_id) (students d)"

text \<open>
  The \<open>UNIQUE\<close> constraint is checked as the row is inserted, the foreign key when the
  statement ends; both raise \<open>sqlite3.IntegrityError\<close>.
\<close>

definition add_term_grade :: "db \<Rightarrow> int \<Rightarrow> string \<Rightarrow> real \<Rightarrow> error option \<times> db" where
  "add_term_grade d student_row_id term_name' gpa' =
     (let row = \<lparr>tid = next_rowid (map tid (terms d)) (terms_seq d),
                 owner = student_row_id, term_name = strip term_name', gpa = gpa'\<rparr>
      in if (owner row, term_name row) \<in> set (map (\<lambda>t. (owner t, term_name t)) (terms d))
         then (Some (IntegrityError UNIQUE_terms_student_id_term_name), d)
         else if student_row_id \<notin> set (map sid (students d))
         then (Some (IntegrityError FOREIGN_KEY), d)
         else (None, d\<lparr>terms := terms d @ [row], terms_seq := tid row\<rparr>))"

definition list_terms_for_student :: "db \<Rightarrow> int \<Rightarrow> (string \<times> real) list" where
  "list_terms_for_student d student_row_id =
     map (\<lambda>t. (term_name t, gpa t))
       (sort_key tid (filter (\<lambda>t. owner t = student_row_id) (terms d)))"

definition delete_term :: "db \<Rightarrow> int \<Rightarrow> string \<Rightarrow> error option \<times> db" where
  "delete_term d student_row_id term_name' =
     (None, d\<lparr>terms := filter (\<lambda>t. \<not> (owner t = student_row_id \<and> term_name t = term_name')) (terms d)\<rparr>)"

text \<open>
  The two sums of floats the program leaves to its libraries. \<open>sqlite_avg\<close> is
  SQLite's \<open>AVG(t.gpa)\<close> over the term rows of a non-empty group, given here in the
  order of the table; \<open>py_sum\<close> is Python's \<open>sum\<close> over a non-empty list of floats.
  The order in which SQLite visits the rows of a group and the way either library adds
  differ between their versions, so both are parameters of the model.
\<close>

record platform =
  sqlite_avg :: "term_grade list \<Rightarrow> pyfloat"
  py_sum :: "pyfloat list \<Rightarrow> pyfloat"








subsection \<open>The libraries as they are\<close>

text \<open>
  SQLite's \<open>AVG\<close> as its versions compute it. The term rows of a student are reached
  through the index of \<open>UNIQUE(student_id, term_name)\<close>, so in the order of the term
  names. Before version 3.44 the values are added to 0.0 from left to right; since then
  with compensation, the error term being added at the end unless it is infinite or NaN.
  The sum is divided by the number of rows.
\<close>

fun kbn_loop :: "pyfloat \<Rightarrow> pyfloat \<Rightarrow> pyfloat list \<Rightarrow> pyfloat \<times> pyfloat" where
  "kbn_loop s e [] = (s, e)"
| "kbn_loop s e (r # rs) =
     (let t = fadd s r
      in kbn_loop t
           (fadd e (if float_lt (float_abs r) (float_abs s) then fadd (fsub s t) r
                    else fadd (fsub r t) s))
           rs)"

fun sqlite_sum :: "summation \<Rightarrow> pyfloat list \<Rightarrow> pyfloat" where
  "sqlite_sum Left_to_right xs = foldl fadd (Finite 0) xs"
| "sqlite_sum Compensated xs =
     (case kbn_loop (Finite 0) (Finite 0) xs of
        (s, e) \<Rightarrow> if is_finite e then fadd s e else s)"

definition sqlite_avg_of :: "summation \<Rightarrow> term_grade list \<Rightarrow> pyfloat" where
  "sqlite_avg_of m ts =
     py_truediv (sqlite_sum m (map (\<lambda>t. Finite (gpa t)) (sort_key term_name ts))) (length ts)"

definition platform_of :: "summation \<Rightarrow> summation \<Rightarrow> platform" where
  "platform_of sqlite python = \<lparr>sqlite_avg = sqlite_avg_of sqlite, py_sum = python_sum python\<rparr>"


section \<open>Example sessions\<close>

text \<open>Two students of class A, the second entered with blanks around the id.\<close>

definition example_students :: db where
  "example_students =
     snd (add_student (snd (add_student empty_db ''S1'' ''Alice'' ''1 Main St'' ''A''))
            '' S2 '' ''Bob'' '''' ''A'')"

text \<open>A third student without terms; one term each for the first two.\<close>

definition example_stats :: db where
  "example_stats =
     snd (add_term_grade
            (snd (add_term_grade (snd (add_student example_students ''S3'' ''Carol'' '''' ''A''))
                    1 ''Fall'' 3.0))
            2 ''Fall'' 4.0)"

text \<open>The first student with the terms Fall and Spring, added in that order.\<close>

definition example_trend :: db where
  "example_trend =
     snd (add_term_grade (snd (add_term_grade example_students 1 ''Fall'' 3.0)) 1 ''Spring'' 3.8)"

section \<open>Reading a float\<close>

text \<open>
  \<open>float(s)\<close> for a string: whitespace around the text is dropped; an underscore may
  stand only between two digits; then comes an optional sign and either \<open>inf\<close>,
  \<open>infinity\<close> or \<open>nan\<close> in any case, or digits with an optional point and an optional
  exponent, at least one digit before or after the point. \<open>None\<close> is \<open>ValueError\<close>.
  The decimal value is rounded to binary64. The whitespace \<open>float\<close> drops is, among the
  code points below 256, 9 to 13, 32, 133 and 160: not 28 to 31, which \<open>str.strip\<close> drops.
\<close>

definition is_float_space :: "char \<Rightarrow> bool" where
  "is_float_space c = ((of_char c :: nat) \<in> {9, 10, 11, 12, 13, 32, 133, 160})"

definition float_strip :: "string \<Rightarrow> string" where
  "float_strip s = rev (dropWhile is_float_space (rev (dropWhile is_float_space s)))"

definition is_digit :: "char \<Rightarrow> bool" where
  "is_digit c = (c \<in> set ''0123456789'')"

definition digit_value :: "char \<Rightarrow> nat" where
  "digit_value c = of_char c - 48"

definition digits_value :: "string \<Rightarrow> nat" where
  "digits_value ds = foldl (\<lambda>v c. 10 * v + digit_value c) 0 ds"

fun underscores_ok :: "char option \<Rightarrow> string \<Rightarrow> bool" where
  "underscores_ok prev [] = (prev \<noteq> Some CHR ''_'')"
| "underscores_ok prev (c # cs) =
     ((if c = CHR ''_'' then (case prev of None \<Rightarrow> False | Some p \<Rightarrow> is_digit p)
       else if prev = Some CHR ''_'' then is_digit c else True) \<and>
      underscores_ok (Some c) cs)"

definition parse_digits :: "string \<Rightarrow> nat option" where
  "parse_digits ds = (if ds \<noteq> [] \<and> list_all is_digit ds then Some (digits_value ds) else None)"

definition parse_exponent :: "string \<Rightarrow> int option" where
  "parse_exponent s =
     (case s of
        [] \<Rightarrow> Some 0
      | e # r \<Rightarrow>
          if e = CHR ''e'' \<or> e = CHR ''E'' then
            (case r of
               [] \<Rightarrow> None
             | sg # ds \<Rightarrow>
                 if sg = CHR ''-'' then map_option (\<lambda>n. - int n) (parse_digits ds)
                 else if sg = CHR ''+'' then map_option int (parse_digits ds)
                 else map_option int (parse_digits r))
          else None)"

definition scale10 :: "nat \<Rightarrow> int \<Rightarrow> real" where
  "scale10 m e = (if 0 \<le> e then real m * 10 ^ nat e else real m / 10 ^ nat (- e))"

definition parse_decimal :: "string \<Rightarrow> real option" where
  "parse_decimal s =
     (let ip = takeWhile is_digit s;
          r1 = dropWhile is_digit s;
          point = (r1 \<noteq> [] \<and> hd r1 = CHR ''.'');
          fp = (if point then takeWhile is_digit (tl r1) else []);
          r2 = (if point then dropWhile is_digit (tl r1) else r1)
      in if ip = [] \<and> fp = [] then None
         else map_option (\<lambda>e. scale10 (digits_value (ip @ fp)) (e - int (length fp)))
                (parse_exponent r2))"

definition parse_abs :: "string \<Rightarrow> pyfloat option" where
  "parse_abs s =
     (let l = map ascii_lower s
      in if l = ''inf'' \<or> l = ''infinity'' then Some PosInf
         else if l = ''nan'' then Some NaN
         else map_option round64 (parse_decimal s))"

definition py_float :: "string \<Rightarrow> pyfloat option" where
  "py_float s =
     (let t = float_strip s
      in if \<not> underscores_ok None t then None
         else let u = filter (\<lambda>c. c \<noteq> CHR ''_'') t
              in case u of
                   [] \<Rightarrow> None
                 | sg # r \<Rightarrow>
                     if sg = CHR ''-'' then map_option float_neg (parse_abs r)
                     else if sg = CHR ''+'' then parse_abs r
                     else parse_abs u)"

section \<open>The chart\<close>

text \<open>
  What \<open>_plot_empty\<close> and \<open>_plot_student\<close> do to the axes and the canvas, as the list of
  the calls they make. \<open>Plot xs ys m\<close> is \<open>ax.plot(xs, ys, marker=m)\<close>, which draws
  the points joined by a line; \<open>Avg_2f v\<close> is the text \<open>f"Avg: {v:.2f}"\<close>.
\<close>

datatype label = Avg_2f pyfloat

datatype draw =
  Clear
  | Set_title string
  | Set_xlabel string
  | Set_ylabel string
  | Set_ylim real real
  | Plot "nat list" "real list" string
  | Set_xticks "nat list"
  | Set_xticklabels "string list" real string
  | Axhline pyfloat string
  | Text real real label
  | Canvas_draw

definition plot_empty :: "draw list" where
  "plot_empty =
     [Clear, Set_title ''Term GPA Trend'', Set_xlabel ''Term'', Set_ylabel ''GPA'', Set_ylim 0 4,
      Canvas_draw]"

definition plot_student :: "platform \<Rightarrow> db \<Rightarrow> int \<Rightarrow> draw list" where
  "plot_student P d student_row_id =
     (let terms' = list_terms_for_student d student_row_id
      in [Clear, Set_title ''Term GPA Trend'', Set_xlabel ''Term'', Set_ylabel ''GPA'', Set_ylim 0 4] @
         (if terms' = [] then [Canvas_draw]
          else let x_labels = map fst terms';
                   y_vals = map snd terms';
                   avg = py_truediv (py_sum P (map Finite y_vals)) (length y_vals)
               in [Plot [0 ..< length x_labels] y_vals ''o'',
                   Set_xticks [0 ..< length x_labels],
                   Set_xticklabels x_labels 30 ''right'',
                   Axhline avg ''--'',
                   Text 0.02 0.95 (Avg_2f avg),
                   Canvas_draw]))"

section \<open>Add Term\<close>

text \<open>
  The part of the application's state \<open>_add_term\<close> reads and writes, and the calls it
  makes in order: the dialogues, the call of the store, and the refreshes of the widgets.
\<close>

record app =
  db :: db
  selected_student_row_id :: "int option"
  term_name_var :: string
  term_gpa_var :: string

datatype effect =
  Showinfo string string
  | Showerror string string
  | Add_term_grade int string pyfloat
  | Refresh_terms int
  | Plot_student int
  | Refresh_class_stats

text \<open>
  \<open>self.db.add_term_grade\<close> called with the float that passed the range check. Such a
  float is finite or NaN; \<open>sqlite3\<close> binds NaN as \<open>NULL\<close>, which \<open>NOT NULL\<close> on
  \<open>terms.gpa\<close> rejects with \<open>IntegrityError\<close>. An infinity does not pass the check.
\<close>

fun add_term_grade_call :: "db \<Rightarrow> int \<Rightarrow> string \<Rightarrow> pyfloat \<Rightarrow> error option \<times> db" where
  "add_term_grade_call d r t (Finite x) = add_term_grade d r t x"
| "add_term_grade_call d r t _ = (Some (IntegrityError NOT_NULL_terms_gpa), d)"

definition add_term :: "app \<Rightarrow> app \<times> effect list" where
  "add_term a =
     (case selected_student_row_id a of
        None \<Rightarrow> (a, [Showinfo ''Add Term'' ''Select a student first.''])
      | Some row_id \<Rightarrow>
          let term_name' = strip (term_name_var a);
              gpa_str = strip (term_gpa_var a)
          in if term_name' = [] \<or> gpa_str = []
             then (a, [Showerror ''Validation'' ''Term and GPA are required.''])
             else
               (case py_float gpa_str of
                  None \<Rightarrow> (a, [Showerror ''Validation'' ''GPA must be a number (e.g., 3.50).''])
                | Some gpa' \<Rightarrow>
                    if float_lt gpa' (Finite 0.0) \<or> float_gt gpa' (Finite 4.0)
                    then (a, [Showerror ''Validation'' ''GPA must be between 0.0 and 4.0.''])
                    else
                      (case add_term_grade_call (db a) row_id term_name' gpa' of
                         (Some (IntegrityError _), d') \<Rightarrow>
                           (a\<lparr>db := d'\<rparr>,
                            [Add_term_grade row_id term_name' gpa',
                             Showerror ''Duplicate''
                               ''That term already exists for this student. Use a different term name.''])
                       | (None, d') \<Rightarrow>
                           (a\<lparr>db := d', term_name_var := [], term_gpa_var := []\<rparr>,
                            [Add_term_grade row_id term_name' gpa', Refresh_terms row_id,
                             Plot_student row_id, Refresh_class_stats]))))"

section \<open>Notions of the specification\<close>

text \<open>The arithmetic mean of a list of values: their sum divided by their count.\<close>

definition mean :: "real list \<Rightarrow> real" where
  "mean xs = sum_list xs / real (length xs)"






text \<open>The calls that put data on the axes: the series, the reference line, the annotation.\<close>

fun plotted :: "draw \<Rightarrow> bool" where
  "plotted (Plot _ _ _) = True"
| "plotted (Axhline _ _) = True"
| "plotted (Text _ _ _) = True"
| "plotted _ = False"

text \<open>
  \<open>q\<close> occurs in \<open>s\<close> as a substring, upper and lower case of the ASCII letters being
  equal.
\<close>

definition contains_nocase :: "string \<Rightarrow> string \<Rightarrow> bool" where
  "contains_nocase q s = sublist (map ascii_lower q) (map ascii_lower s)"

section \<open>Further example sessions\<close>

text \<open>The first student with the terms Spring and Fall, added in that order.\<close>

definition example_trend_rev :: db where
  "example_trend_rev =
     snd (add_term_grade (snd (add_term_grade example_students 1 ''Spring'' 3.8)) 1 ''Fall'' 3.0)"

text \<open>The first student selected, the term Fall typed, and a text in the GPA entry.\<close>

definition example_app :: "string \<Rightarrow> app" where
  "example_app gpa_str =
     \<lparr>db = example_students, selected_student_row_id = Some 1, term_name_var = ''Fall'',
      term_gpa_var = gpa_str\<rparr>"

text \<open>The float that the literal \<open>3.7\<close> denotes, the binary64 number nearest to 37/10.\<close>

definition gpa_3_7 :: real where
  "gpa_3_7 = 8331659310635418 / 2 ^ 51"

text \<open>A class of three students, each with one term of GPA 3.7.\<close>

definition example_37_class :: db where
  "example_37_class =
     snd (add_term_grade
       (snd (add_term_grade
         (snd (add_term_grade
           (snd (add_student
             (snd (add_student
               (snd (add_student empty_db ''T1'' ''Ann'' '''' ''B''))
               ''T2'' ''Ben'' '''' ''B''))
             ''T3'' ''Cyd'' '''' ''B''))
           1 ''Fall'' gpa_3_7))
         2 ''Fall'' gpa_3_7))
       3 ''Fall'' gpa_3_7)"

text \<open>The second student with three terms of GPA 3.7.\<close>

definition example_37_terms :: db where
  "example_37_terms =
     snd (add_term_grade
       (snd (add_term_grade (snd (add_term_grade example_students 2 ''Fall'' gpa_3_7))
          2 ''Spring'' gpa_3_7))
       2 ''Summer'' gpa_3_7)"

text \<open>The first student with the terms Fall, 3.0, and Spring, 3.5.\<close>

definition example_trend_half :: db where
  "example_trend_half =
     snd (add_term_grade (snd (add_term_grade example_students 1 ''Fall'' 3.0)) 1 ''Spring'' 3.5)"

section \<open>Evaluation of the example sessions\<close>

lemmas store_defs =
  add_student_def add_term_grade_def empty_db_def next_rowid_def strip_def is_space_def Let_def

lemma example_students_eq:
  "example_students =
     \<lparr>students =
        [\<lparr>sid = 1, student_id = ''S1'', name = ''Alice'', address = ''1 Main St'', class_name = ''A''\<rparr>,
         \<lparr>sid = 2, student_id = ''S2'', name = ''Bob'', address = [], class_name = ''A''\<rparr>],
      terms = [], students_seq = 2, terms_seq = 0\<rparr>"
  by (simp add: example_students_def store_defs)

lemma example_stats_eq:
  "example_stats =
     \<lparr>students =
        [\<lparr>sid = 1, student_id = ''S1'', name = ''Alice'', address = ''1 Main St'', class_name = ''A''\<rparr>,
         \<lparr>sid = 2, student_id = ''S2'', name = ''Bob'', address = [], class_name = ''A''\<rparr>,
         \<lparr>sid = 3, student_id = ''S3'', name = ''Carol'', address = [], class_name = ''A''\<rparr>],
      terms =
        [\<lparr>tid = 1, owner = 1, term_name = ''Fall'', gpa = 3\<rparr>,
         \<lparr>tid = 2, owner = 2, term_name = ''Fall'', gpa = 4\<rparr>],
      students_seq = 3, terms_seq = 2\<rparr>"
  by (simp add: example_stats_def example_students_eq store_defs)

lemma example_trend_eq:
  "example_trend =
     \<lparr>students =
        [\<lparr>sid = 1, student_id = ''S1'', name = ''Alice'', address = ''1 Main St'', class_name = ''A''\<rparr>,
         \<lparr>sid = 2, student_id = ''S2'', name = ''Bob'', address = [], class_name = ''A''\<rparr>],
      terms =
        [\<lparr>tid = 1, owner = 1, term_name = ''Fall'', gpa = 3\<rparr>,
         \<lparr>tid = 2, owner = 1, term_name = ''Spring'', gpa = 38 / 10\<rparr>],
      students_seq = 2, terms_seq = 2\<rparr>"
  by (simp add: example_trend_def example_students_eq store_defs)

lemma example_trend_half_eq:
  "example_trend_half =
     \<lparr>students =
        [\<lparr>sid = 1, student_id = ''S1'', name = ''Alice'', address = ''1 Main St'', class_name = ''A''\<rparr>,
         \<lparr>sid = 2, student_id = ''S2'', name = ''Bob'', address = [], class_name = ''A''\<rparr>],
      terms =
        [\<lparr>tid = 1, owner = 1, term_name = ''Fall'', gpa = 3\<rparr>,
         \<lparr>tid = 2, owner = 1, term_name = ''Spring'', gpa = 7 / 2\<rparr>],
      students_seq = 2, terms_seq = 2\<rparr>"
  by (simp add: example_trend_half_def example_students_eq store_defs)


lemma example_37_terms_eq:
  "example_37_terms =
     \<lparr>students =
        [\<lparr>sid = 1, student_id = ''S1'', name = ''Alice'', address = ''1 Main St'', class_name = ''A''\<rparr>,
         \<lparr>sid = 2, student_id = ''S2'', name = ''Bob'', address = [], class_name = ''A''\<rparr>],
      terms =
        [\<lparr>tid = 1, owner = 2, term_name = ''Fall'', gpa = gpa_3_7\<rparr>,
         \<lparr>tid = 2, owner = 2, term_name = ''Spring'', gpa = gpa_3_7\<rparr>,
         \<lparr>tid = 3, owner = 2, term_name = ''Summer'', gpa = gpa_3_7\<rparr>],
      students_seq = 2, terms_seq = 3\<rparr>"
  by (simp add: example_37_terms_def example_students_eq store_defs)

section \<open>Searching with an empty query\<close>

lemma like_percent: "like ''%'' s"
  by (induction s) simp_all

lemma like_percent_percent: "like ''%%'' s"
  by (cases s) (simp_all add: like_percent)

lemma strip_Nil: "strip [] = []"
  by (simp add: strip_def)

text \<open>
  C8. For every class name and every state of the store, the search with the empty query
  returns the students \<open>list_students_by_class\<close> returns, in the same order.
\<close>

theorem search_empty_query:
  "search_students_by_class_like d class_name' '''' = list_students_by_class d class_name'"
  by (simp add: search_students_by_class_like_def list_students_by_class_def strip_Nil
      like_percent_percent)

section \<open>Deleting\<close>

text \<open>
  C6. \<open>delete_term\<close> with a pair that matches no term row, and \<open>delete_student\<close> with a
  row id that matches no student row, raise nothing and leave the whole state as it was.
\<close>

theorem delete_absent_noop:
  "(\<not> (\<exists>t \<in> set (terms d). owner t = r \<and> term_name t = n) \<longrightarrow> delete_term d r n = (None, d)) \<and>
   (\<not> (\<exists>s \<in> set (students d). sid s = r') \<longrightarrow> delete_student d r' = (None, d))"
proof (intro conjI impI)
  assume "\<not> (\<exists>t \<in> set (terms d). owner t = r \<and> term_name t = n)"
  then have "filter (\<lambda>t. \<not> (owner t = r \<and> term_name t = n)) (terms d) = terms d"
    by (simp add: filter_id_conv)
  then show "delete_term d r n = (None, d)"
    by (simp add: delete_term_def)
next
  assume "\<not> (\<exists>s \<in> set (students d). sid s = r')"
  then have "r' \<notin> set (map sid (students d))"
    by auto
  then show "delete_student d r' = (None, d)"
    by (simp add: delete_student_def)
qed

theorem delete_absent_noop_witness:
  "\<not> (\<exists>t \<in> set (terms example_stats). owner t = 1 \<and> term_name t = ''Spring'') \<and>
   delete_term example_stats 1 ''Spring'' = (None, example_stats) \<and>
   \<not> (\<exists>s \<in> set (students example_stats). sid s = 7) \<and>
   delete_student example_stats 7 = (None, example_stats)"
proof -
  have t: "\<not> (\<exists>t \<in> set (terms example_stats). owner t = 1 \<and> term_name t = ''Spring'')"
    by (simp add: example_stats_eq)
  have s: "\<not> (\<exists>s \<in> set (students example_stats). sid s = 7)"
    by (simp add: example_stats_eq)
  from t s delete_absent_noop [of example_stats 1 "''Spring''" 7] show ?thesis
    by blast
qed

lemma find_filter_other:
  "r' \<noteq> r \<Longrightarrow>
   find (\<lambda>s. sid s = r') (filter (\<lambda>s. sid s \<noteq> r) xs) = find (\<lambda>s. sid s = r') xs"
  by (induction xs) auto

text \<open>
  C4. For every row id \<open>r\<close> of a student in the store, \<open>delete_student\<close> raises nothing
  and leaves exactly the other student rows and the term rows of the other students,
  each as it was. So the student is gone: \<open>get_student\<close> finds nothing under \<open>r\<close>, every
  class listing is the one before without the rows of \<open>r\<close>, and no search result holds
  \<open>r\<close>; no term row of \<open>r\<close> is left, so that \<open>list_terms_for_student\<close> is empty; and
  the other students and their terms are returned as before.
\<close>

theorem delete_student_cascade:
  assumes "r \<in> set (map sid (students d))"
  shows "delete_student d r =
           (None, d\<lparr>students := filter (\<lambda>s. sid s \<noteq> r) (students d),
                     terms := filter (\<lambda>t. owner t \<noteq> r) (terms d)\<rparr>) \<and>
         fst (delete_student d r) = None \<and>
         get_student (snd (delete_student d r)) r = None \<and>
         (\<forall>c. list_students_by_class (snd (delete_student d r)) c =
              filter (\<lambda>s. sid s \<noteq> r) (list_students_by_class d c)) \<and>
         (\<forall>c. r \<notin> set (map sid (list_students_by_class (snd (delete_student d r)) c))) \<and>
         (\<forall>c q. r \<notin> set (map sid (search_students_by_class_like (snd (delete_student d r)) c q))) \<and>
         list_terms_for_student (snd (delete_student d r)) r = [] \<and>
         (\<forall>t \<in> set (terms (snd (delete_student d r))). owner t \<noteq> r) \<and>
         filter (\<lambda>t. owner t \<noteq> r) (terms (snd (delete_student d r))) =
           filter (\<lambda>t. owner t \<noteq> r) (terms d) \<and>
         (\<forall>r'. r' \<noteq> r \<longrightarrow>
            list_terms_for_student (snd (delete_student d r)) r' = list_terms_for_student d r') \<and>
         (\<forall>r'. r' \<noteq> r \<longrightarrow> get_student (snd (delete_student d r)) r' = get_student d r')"
proof -
  let ?d = "snd (delete_student d r)"
  have 0: "delete_student d r =
           (None, d\<lparr>students := filter (\<lambda>s. sid s \<noteq> r) (students d),
                     terms := filter (\<lambda>t. owner t \<noteq> r) (terms d)\<rparr>)"
    using assms by (simp add: delete_student_def)
  have st: "students ?d = filter (\<lambda>s. sid s \<noteq> r) (students d)"
    and tm: "terms ?d = filter (\<lambda>t. owner t \<noteq> r) (terms d)"
    by (simp_all add: 0)
  have 1: "fst (delete_student d r) = None"
    by (simp add: 0)
  have 2: "get_student ?d r = None"
    by (simp add: get_student_def st find_None_iff)
  have 3: "\<forall>c. list_students_by_class ?d c = filter (\<lambda>s. sid s \<noteq> r) (list_students_by_class d c)"
  proof
    fix c
    have "filter (\<lambda>s. class_name s = c) (filter (\<lambda>s. sid s \<noteq> r) (students d)) =
          filter (\<lambda>s. sid s \<noteq> r) (filter (\<lambda>s. class_name s = c) (students d))"
      by (auto intro: filter_cong)
    then show "list_students_by_class ?d c = filter (\<lambda>s. sid s \<noteq> r) (list_students_by_class d c)"
      unfolding list_students_by_class_def st by (simp only: filter_sort)
  qed
  have 4: "\<forall>c. r \<notin> set (map sid (list_students_by_class ?d c))"
    by (auto simp: list_students_by_class_def st)
  have 5: "\<forall>c q. r \<notin> set (map sid (search_students_by_class_like ?d c q))"
    by (auto simp: search_students_by_class_like_def st Let_def)
  have 6: "list_terms_for_student ?d r = []"
    by (simp add: list_terms_for_student_def tm)
  have 7: "\<forall>t \<in> set (terms ?d). owner t \<noteq> r"
    by (simp add: tm)
  have 8: "filter (\<lambda>t. owner t \<noteq> r) (terms ?d) = filter (\<lambda>t. owner t \<noteq> r) (terms d)"
    by (simp add: tm)
  have 9: "\<forall>r'. r' \<noteq> r \<longrightarrow> list_terms_for_student ?d r' = list_terms_for_student d r'"
  proof (intro allI impI)
    fix r' :: int
    assume "r' \<noteq> r"
    then have "filter (\<lambda>t. owner t = r') (filter (\<lambda>t. owner t \<noteq> r) (terms d)) =
               filter (\<lambda>t. owner t = r') (terms d)"
      by (auto intro: filter_cong)
    then show "list_terms_for_student ?d r' = list_terms_for_student d r'"
      by (simp add: list_terms_for_student_def tm)
  qed
  have 10: "\<forall>r'. r' \<noteq> r \<longrightarrow> get_student ?d r' = get_student d r'"
    by (simp add: get_student_def st find_filter_other)
  show ?thesis
    by (intro conjI 0 1 2 3 4 5 6 7 8 9 10)
qed

theorem delete_student_cascade_witness:
  "1 \<in> set (map sid (students example_stats)) \<and>
   map name (list_students_by_class example_stats ''A'') = [''Alice'', ''Bob'', ''Carol''] \<and>
   list_terms_for_student example_stats 1 = [(''Fall'', 3)] \<and>
   get_student (snd (delete_student example_stats 1)) 1 = None \<and>
   map name (list_students_by_class (snd (delete_student example_stats 1)) ''A'') = [''Bob'', ''Carol''] \<and>
   list_terms_for_student (snd (delete_student example_stats 1)) 1 = [] \<and>
   list_terms_for_student (snd (delete_student example_stats 1)) 2 = [(''Fall'', 4)]"
proof -
  have h: "1 \<in> set (map sid (students example_stats))"
    by (simp add: example_stats_eq)
  have b: "list_terms_for_student example_stats 1 = [(''Fall'', 3)]"
    and o: "list_terms_for_student example_stats 2 = [(''Fall'', 4)]"
    by (simp_all add: example_stats_eq list_terms_for_student_def)
  have l: "list_students_by_class example_stats ''A'' = students example_stats"
    by (simp add: example_stats_eq list_students_by_class_def)
  have n: "map name (list_students_by_class example_stats ''A'') = [''Alice'', ''Bob'', ''Carol'']"
    "map name (filter (\<lambda>s. sid s \<noteq> 1) (list_students_by_class example_stats ''A'')) = [''Bob'', ''Carol'']"
    unfolding l by (simp_all add: example_stats_eq)
  note c = delete_student_cascade [OF h]
  from c have g: "get_student (snd (delete_student example_stats 1)) 1 = None"
    by (elim conjE)
  from c have "\<forall>c. list_students_by_class (snd (delete_student example_stats 1)) c =
      filter (\<lambda>s. sid s \<noteq> 1) (list_students_by_class example_stats c)"
    by (elim conjE)
  then have l': "map name (list_students_by_class (snd (delete_student example_stats 1)) ''A'') =
      [''Bob'', ''Carol'']"
    by (simp only: n(2))
  from c have t: "list_terms_for_student (snd (delete_student example_stats 1)) 1 = []"
    by (elim conjE)
  from c have "\<forall>r'. r' \<noteq> 1 \<longrightarrow>
      list_terms_for_student (snd (delete_student example_stats 1)) r' =
      list_terms_for_student example_stats r'"
    by (elim conjE)
  then have t': "list_terms_for_student (snd (delete_student example_stats 1)) 2 = [(''Fall'', 4)]"
    by (simp add: o)
  show ?thesis
    by (intro conjI h n(1) b g l' t t')
qed

section \<open>Inserting\<close>

lemma fold_max_ge_init: "s \<le> fold max ids (s :: int)"
  by (induction ids arbitrary: s) (auto intro: order_trans [OF max.cobounded2])

lemma fold_max_ge_elem: "x \<in> set ids \<Longrightarrow> x \<le> fold max ids (s :: int)"
proof (induction ids arbitrary: s)
  case Nil
  then show ?case by simp
next
  case (Cons a ids)
  show ?case
  proof (cases "x = a")
    case True
    have "a \<le> max a s" by simp
    also have "\<dots> \<le> fold max ids (max a s)" by (rule fold_max_ge_init)
    finally show ?thesis using True by simp
  next
    case False
    with Cons show ?thesis by simp
  qed
qed

lemma next_rowid_fresh: "x \<in> set ids \<Longrightarrow> x < next_rowid ids s"
  using fold_max_ge_elem [of x ids s] by (simp add: next_rowid_def)

lemma next_rowid_notin: "next_rowid ids s \<notin> set ids"
  using next_rowid_fresh [of "next_rowid ids s" ids s] by auto

lemma insort_key_snoc:
  "f a \<le> f x \<Longrightarrow> \<forall>y \<in> set ys. f y \<le> f x \<Longrightarrow>
   insort_key f a (ys @ [x]) = insort_key f a ys @ [x]"
  by (induction ys) auto

lemma sort_key_snoc_aux:
  "\<forall>y \<in> set xs. f y \<le> f x \<Longrightarrow> foldr (insort_key f) xs [x] = foldr (insort_key f) xs [] @ [x]"
proof (induction xs)
  case Nil
  then show ?case by simp
next
  case (Cons a xs)
  then have ih: "foldr (insort_key f) xs [x] = foldr (insort_key f) xs [] @ [x]"
    by simp
  have "\<forall>y \<in> set (foldr (insort_key f) xs []). f y \<le> f x"
    using Cons.prems by (simp add: sort_key_def [symmetric])
  with Cons.prems show ?case
    by (simp add: ih insort_key_snoc)
qed

lemma sort_key_snoc:
  "\<forall>y \<in> set xs. f y \<le> f x \<Longrightarrow> sort_key f (xs @ [x]) = sort_key f xs @ [x]"
  by (simp add: sort_key_def sort_key_snoc_aux)

lemma find_append:
  "find P (xs @ ys) = (case find P xs of None \<Rightarrow> find P ys | Some x \<Rightarrow> Some x)"
  by (induction xs) auto

lemma add_term_grade_ok:
  assumes "add_term_grade d r t g = (None, d')"
  shows "d' = d\<lparr>terms := terms d @ [\<lparr>tid = next_rowid (map tid (terms d)) (terms_seq d),
                  owner = r, term_name = strip t, gpa = g\<rparr>],
                terms_seq := next_rowid (map tid (terms d)) (terms_seq d)\<rparr>"
    and "(r, strip t) \<notin> set (map (\<lambda>t. (owner t, term_name t)) (terms d))"
    and "r \<in> set (map sid (students d))"
  using assms by (auto simp: add_term_grade_def Let_def split: if_splits)

lemma add_student_ok:
  assumes "add_student d i n a c = (None, d')"
  shows "d' = d\<lparr>students := students d @ [\<lparr>sid = next_rowid (map sid (students d)) (students_seq d),
                  student_id = strip i, name = strip n, address = strip a, class_name = strip c\<rparr>],
                students_seq := next_rowid (map sid (students d)) (students_seq d)\<rparr>"
    and "strip i \<notin> set (map student_id (students d))"
  using assms by (auto simp: add_student_def Let_def split: if_splits)

lemma list_terms_add:
  assumes "add_term_grade d r t g = (None, d')"
  shows "list_terms_for_student d' r = list_terms_for_student d r @ [(strip t, g)]"
    and "r' \<noteq> r \<Longrightarrow> list_terms_for_student d' r' = list_terms_for_student d r'"
proof -
  let ?k = "next_rowid (map tid (terms d)) (terms_seq d)"
  let ?row = "\<lparr>tid = ?k, owner = r, term_name = strip t, gpa = g\<rparr>"
  have tm: "terms d' = terms d @ [?row]"
    using add_term_grade_ok(1) [OF assms] by simp
  have "\<forall>y \<in> set (filter (\<lambda>t. owner t = r) (terms d)). tid y \<le> tid ?row"
    using next_rowid_fresh [of _ "map tid (terms d)" "terms_seq d"] by fastforce
  then have "sort_key tid (filter (\<lambda>t. owner t = r) (terms d) @ [?row]) =
             sort_key tid (filter (\<lambda>t. owner t = r) (terms d)) @ [?row]"
    by (rule sort_key_snoc)
  then show "list_terms_for_student d' r = list_terms_for_student d r @ [(strip t, g)]"
    by (simp add: list_terms_for_student_def tm)
  show "r' \<noteq> r \<Longrightarrow> list_terms_for_student d' r' = list_terms_for_student d r'"
    by (simp add: list_terms_for_student_def tm)
qed

lemma strip_trimmed: "trimmed_of s (strip s)"
proof -
  let ?u = "dropWhile is_space s"
  let ?l = "takeWhile is_space s"
  let ?r = "rev (takeWhile is_space (rev ?u))"
  have u: "?u = strip s @ ?r"
  proof -
    have "?u = rev (takeWhile is_space (rev ?u) @ dropWhile is_space (rev ?u))"
      by (simp only: takeWhile_dropWhile_id rev_rev_ident)
    also have "\<dots> = rev (dropWhile is_space (rev ?u)) @ rev (takeWhile is_space (rev ?u))"
      by (rule rev_append)
    finally show ?thesis
      by (simp only: strip_def)
  qed
  have "s = ?l @ ?u"
    by simp
  with u have s: "s = ?l @ strip s @ ?r"
    by simp
  have l: "list_all is_space ?l"
    by (auto simp: list_all_iff dest: set_takeWhileD)
  have r: "list_all is_space ?r"
    by (auto simp: list_all_iff dest: set_takeWhileD)
  have ends: "\<not> is_space (hd (strip s)) \<and> \<not> is_space (last (strip s))" if ne: "strip s \<noteq> []"
  proof
    from ne u have "?u \<noteq> []" by (metis Nil_is_append_conv)
    then have "\<not> is_space (hd ?u)" by (rule hd_dropWhile)
    moreover from u ne have "hd ?u = hd (strip s)"
      by (metis hd_append2)
    ultimately show "\<not> is_space (hd (strip s))" by simp
    from ne have "dropWhile is_space (rev ?u) \<noteq> []"
      unfolding strip_def by (metis rev.simps(1))
    then have "\<not> is_space (hd (dropWhile is_space (rev ?u)))" by (rule hd_dropWhile)
    moreover have "last (strip s) = hd (dropWhile is_space (rev ?u))"
      unfolding strip_def by (rule last_rev)
    ultimately show "\<not> is_space (last (strip s))" by simp
  qed
  from s l r ends show ?thesis
    unfolding trimmed_of_def by blast
qed

text \<open>
  C3. \<open>add_student\<close> with an external id that is already stored, and \<open>add_term_grade\<close>
  with a term name the student already has, raise \<open>IntegrityError\<close> and leave the whole
  state as it was; so does a second attempt after a first that succeeded, and exactly one
  term row with that student and term name is then in the store.
\<close>

theorem duplicate_key_no_effect:
  "(strip i \<in> set (map student_id (students d)) \<longrightarrow>
      add_student d i n a c = (Some (IntegrityError UNIQUE_students_student_id), d)) \<and>
   (add_student d i n a c = (None, d1) \<longrightarrow>
      add_student d1 i n' a' c' = (Some (IntegrityError UNIQUE_students_student_id), d1) \<and>
      length (students d1) = Suc (length (students d))) \<and>
   ((r, strip t) \<in> set (map (\<lambda>x. (owner x, term_name x)) (terms d)) \<longrightarrow>
      add_term_grade d r t g = (Some (IntegrityError UNIQUE_terms_student_id_term_name), d)) \<and>
   (add_term_grade d r t g = (None, d2) \<longrightarrow>
      add_term_grade d2 r t g' = (Some (IntegrityError UNIQUE_terms_student_id_term_name), d2) \<and>
      length (filter (\<lambda>x. owner x = r \<and> term_name x = strip t) (terms d2)) = 1)"
proof (intro conjI impI)
  assume "strip i \<in> set (map student_id (students d))"
  then show "add_student d i n a c = (Some (IntegrityError UNIQUE_students_student_id), d)"
    by (simp add: add_student_def)
next
  assume ok: "add_student d i n a c = (None, d1)"
  then have "strip i \<in> set (map student_id (students d1))"
    using add_student_ok(1) [OF ok] by simp
  then show "add_student d1 i n' a' c' = (Some (IntegrityError UNIQUE_students_student_id), d1)"
    by (simp add: add_student_def)
next
  assume ok: "add_student d i n a c = (None, d1)"
  show "length (students d1) = Suc (length (students d))"
    using add_student_ok(1) [OF ok] by simp
next
  assume "(r, strip t) \<in> set (map (\<lambda>x. (owner x, term_name x)) (terms d))"
  then show "add_term_grade d r t g = (Some (IntegrityError UNIQUE_terms_student_id_term_name), d)"
    by (simp add: add_term_grade_def)
next
  assume ok: "add_term_grade d r t g = (None, d2)"
  then have "(r, strip t) \<in> set (map (\<lambda>x. (owner x, term_name x)) (terms d2))"
    using add_term_grade_ok(1) [OF ok] by simp
  then show "add_term_grade d2 r t g' = (Some (IntegrityError UNIQUE_terms_student_id_term_name), d2)"
    by (simp add: add_term_grade_def)
next
  assume ok: "add_term_grade d r t g = (None, d2)"
  have "filter (\<lambda>x. owner x = r \<and> term_name x = strip t) (terms d) = []"
    using add_term_grade_ok(2) [OF ok] by (auto simp: filter_empty_conv)
  then show "length (filter (\<lambda>x. owner x = r \<and> term_name x = strip t) (terms d2)) = 1"
    using add_term_grade_ok(1) [OF ok] by simp
qed

theorem duplicate_key_no_effect_witness:
  "strip ''S1 '' \<in> set (map student_id (students example_students)) \<and>
   add_student example_students ''S1 '' ''Ann'' '''' ''B'' =
     (Some (IntegrityError UNIQUE_students_student_id), example_students) \<and>
   add_student example_students ''S3'' ''Carol'' '''' ''A'' =
     (None, snd (add_student example_students ''S3'' ''Carol'' '''' ''A'')) \<and>
   add_student (snd (add_student example_students ''S3'' ''Carol'' '''' ''A'')) ''S3'' ''Cy'' ''x'' ''B'' =
     (Some (IntegrityError UNIQUE_students_student_id),
      snd (add_student example_students ''S3'' ''Carol'' '''' ''A'')) \<and>
   (1, strip ''Fall'') \<in> set (map (\<lambda>x. (owner x, term_name x)) (terms example_stats)) \<and>
   add_term_grade example_stats 1 ''Fall'' 2 =
     (Some (IntegrityError UNIQUE_terms_student_id_term_name), example_stats) \<and>
   add_term_grade example_students 1 ''Fall'' 3 =
     (None, snd (add_term_grade example_students 1 ''Fall'' 3)) \<and>
   add_term_grade (snd (add_term_grade example_students 1 ''Fall'' 3)) 1 ''Fall'' 2 =
     (Some (IntegrityError UNIQUE_terms_student_id_term_name),
      snd (add_term_grade example_students 1 ''Fall'' 3)) \<and>
   length (filter (\<lambda>x. owner x = 1 \<and> term_name x = strip ''Fall'')
             (terms (snd (add_term_grade example_students 1 ''Fall'' 3)))) = 1"
proof -
  have h1: "strip ''S1 '' \<in> set (map student_id (students example_students))"
    by (simp add: example_students_eq strip_def is_space_def)
  have h2: "add_student example_students ''S3'' ''Carol'' '''' ''A'' =
     (None, snd (add_student example_students ''S3'' ''Carol'' '''' ''A''))"
    by (simp add: example_students_eq store_defs)
  have h3: "(1, strip ''Fall'') \<in> set (map (\<lambda>x. (owner x, term_name x)) (terms example_stats))"
    by (simp add: example_stats_eq strip_def is_space_def)
  have h4: "add_term_grade example_students 1 ''Fall'' 3 =
     (None, snd (add_term_grade example_students 1 ''Fall'' 3))"
    by (simp add: example_students_eq store_defs)
  from h1 h2
    duplicate_key_no_effect [of "''S1 ''" example_students "''Ann''" "''''" "''B''"]
    duplicate_key_no_effect [of "''S3''" example_students "''Carol''" "''''" "''A''"
      "snd (add_student example_students ''S3'' ''Carol'' '''' ''A'')" "''Cy''" "''x''" "''B''"]
  have s: "add_student example_students ''S1 '' ''Ann'' '''' ''B'' =
     (Some (IntegrityError UNIQUE_students_student_id), example_students) \<and>
   add_student (snd (add_student example_students ''S3'' ''Carol'' '''' ''A'')) ''S3'' ''Cy'' ''x'' ''B'' =
     (Some (IntegrityError UNIQUE_students_student_id),
      snd (add_student example_students ''S3'' ''Carol'' '''' ''A''))"
    by blast
  from h3 h4
    duplicate_key_no_effect [where d = example_stats and r = 1 and t = "''Fall''" and g = 2]
    duplicate_key_no_effect [where d = example_students and r = 1 and t = "''Fall''" and g = 3
      and ?d2.0 = "snd (add_term_grade example_students 1 ''Fall'' 3)" and g' = 2]
  have t: "add_term_grade example_stats 1 ''Fall'' 2 =
     (Some (IntegrityError UNIQUE_terms_student_id_term_name), example_stats) \<and>
   add_term_grade (snd (add_term_grade example_students 1 ''Fall'' 3)) 1 ''Fall'' 2 =
     (Some (IntegrityError UNIQUE_terms_student_id_term_name),
      snd (add_term_grade example_students 1 ''Fall'' 3)) \<and>
   length (filter (\<lambda>x. owner x = 1 \<and> term_name x = strip ''Fall'')
             (terms (snd (add_term_grade example_students 1 ''Fall'' 3)))) = 1"
    by blast
  from h1 h2 h3 h4 s t show ?thesis
    by blast
qed

text \<open>
  C10. Whatever strings are passed, a successful \<open>add_student\<close> stores the student id,
  name, address and class name with leading and trailing whitespace removed, under a
  fresh row id, and \<open>get_student\<close> returns them so; a successful \<open>add_term_grade\<close>
  stores the term name so, and \<open>list_terms_for_student\<close> returns it so, as the last
  term of the student.
\<close>

theorem stored_values_trimmed:
  "(add_student d i n a c = (None, d1) \<longrightarrow>
      (\<exists>k. get_student d k = None \<and>
           get_student d1 k =
             Some \<lparr>sid = k, student_id = strip i, name = strip n, address = strip a,
                   class_name = strip c\<rparr>) \<and>
      trimmed_of i (strip i) \<and> trimmed_of n (strip n) \<and> trimmed_of a (strip a) \<and>
      trimmed_of c (strip c)) \<and>
   (add_term_grade d r t g = (None, d2) \<longrightarrow>
      list_terms_for_student d2 r = list_terms_for_student d r @ [(strip t, g)] \<and>
      trimmed_of t (strip t))"
proof (intro conjI impI)
  assume ok: "add_student d i n a c = (None, d1)"
  let ?k = "next_rowid (map sid (students d)) (students_seq d)"
  have new: "?k \<notin> set (map sid (students d))"
    by (rule next_rowid_notin)
  then have none: "find (\<lambda>s. sid s = ?k) (students d) = None"
    unfolding find_None_iff by (metis image_eqI set_map)
  then have "get_student d ?k = None \<and>
        get_student d1 ?k =
          Some \<lparr>sid = ?k, student_id = strip i, name = strip n, address = strip a,
                class_name = strip c\<rparr>"
    using add_student_ok(1) [OF ok] by (simp add: get_student_def find_append)
  then show "\<exists>k. get_student d k = None \<and>
           get_student d1 k =
             Some \<lparr>sid = k, student_id = strip i, name = strip n, address = strip a,
                   class_name = strip c\<rparr>"
    by blast
next
  assume ok: "add_term_grade d r t g = (None, d2)"
  then show "list_terms_for_student d2 r = list_terms_for_student d r @ [(strip t, g)]"
    by (rule list_terms_add(1))
qed (rule strip_trimmed)+

theorem stored_values_trimmed_witness:
  "add_student example_students ''  S9 '' '' Dan  '' '' 5 Elm St '' '' B '' =
     (None, snd (add_student example_students ''  S9 '' '' Dan  '' '' 5 Elm St '' '' B '')) \<and>
   get_student (snd (add_student example_students ''  S9 '' '' Dan  '' '' 5 Elm St '' '' B '')) 3 =
     Some \<lparr>sid = 3, student_id = ''S9'', name = ''Dan'', address = ''5 Elm St'', class_name = ''B''\<rparr> \<and>
   trimmed_of ''  S9 '' (strip ''  S9 '') \<and>
   add_term_grade example_students 2 ''  Fall 2024 '' 3.5 =
     (None, snd (add_term_grade example_students 2 ''  Fall 2024 '' 3.5)) \<and>
   list_terms_for_student (snd (add_term_grade example_students 2 ''  Fall 2024 '' 3.5)) 2 =
     [(''Fall 2024'', 3.5)]"
proof -
  have h1: "add_student example_students ''  S9 '' '' Dan  '' '' 5 Elm St '' '' B '' =
     (None, snd (add_student example_students ''  S9 '' '' Dan  '' '' 5 Elm St '' '' B ''))"
    by (simp add: example_students_eq store_defs)
  have h2: "add_term_grade example_students 2 ''  Fall 2024 '' 3.5 =
     (None, snd (add_term_grade example_students 2 ''  Fall 2024 '' 3.5))"
    by (simp add: example_students_eq store_defs)
  have e1: "get_student (snd (add_student example_students ''  S9 '' '' Dan  '' '' 5 Elm St '' '' B '')) 3 =
     Some \<lparr>sid = 3, student_id = ''S9'', name = ''Dan'', address = ''5 Elm St'', class_name = ''B''\<rparr>"
    by (simp add: example_students_eq store_defs get_student_def)
  have e2: "list_terms_for_student example_students 2 = []"
    by (simp add: example_students_eq list_terms_for_student_def)
  have e3: "strip ''  Fall 2024 '' = ''Fall 2024''"
    by (simp add: strip_def is_space_def)
  from h1 h2 e1 e2 e3
    stored_values_trimmed [of example_students "''  S9 ''" "'' Dan  ''" "'' 5 Elm St ''" "'' B ''"
      "snd (add_student example_students ''  S9 '' '' Dan  '' '' 5 Elm St '' '' B '')"
      2 "''  Fall 2024 ''" "3.5" "snd (add_term_grade example_students 2 ''  Fall 2024 '' 3.5)"]
  show ?thesis
    by simp
qed

section \<open>Values of the rounding\<close>

lemma round64_0: "round64 0 = Finite 0"
  by (simp add: round64_def)

text \<open>
  The rounding of a number whose binary exponent and rounded significand are known:
  the form in which the values below are computed.
\<close>

lemma round64_value:
  assumes "x \<noteq> 0" and "floor_log2 \<bar>x\<bar> = e" and "- 1022 \<le> e"
    and "round_half_even (\<bar>x\<bar> / pow2 (e - 52)) = m"
    and "of_int m * pow2 (e - 52) < pow2 1024"
  shows "round64 x =
     Finite (if 0 < x then of_int m * pow2 (e - 52) else - (of_int m * pow2 (e - 52)))"
proof -
  from assms(2,3) have e: "max (floor_log2 \<bar>x\<bar>) (- 1022) = e"
    by simp
  have r: "real_of_int (round_half_even (\<bar>x\<bar> / pow2 (e - 52))) * pow2 (e - 52) =
           real_of_int m * pow2 (e - 52)"
    by (simp only: assms(4))
  from assms(5) have n: "\<not> pow2 1024 \<le> real_of_int m * pow2 (e - 52)"
    by simp
  show ?thesis
    unfolding round64_def Let_def e r using assms(1) n by (simp only: if_False)
qed

lemmas round64_eval = floor_log2_def bit_length.simps round_half_even_def pow2_def Let_def

lemma round64_3: "round64 (3) = Finite (3)"
  using round64_value [of "3" 1 6755399441055744] by (simp add: round64_eval)

lemma round64_4: "round64 (4) = Finite (4)"
  using round64_value [of "4" 2 4503599627370496] by (simp add: round64_eval)

lemma round64_7: "round64 (7) = Finite (7)"
  using round64_value [of "7" 2 7881299347898368] by (simp add: round64_eval)

lemma round64_neg_3: "round64 (- 3) = Finite (- 3)"
  using round64_value [of "- 3" 1 6755399441055744] by (simp add: round64_eval)

lemma round64_7_2: "round64 (7 / 2) = Finite (7 / 2)"
  using round64_value [of "7 / 2" 1 7881299347898368] by (simp add: round64_eval)

lemma round64_13_2: "round64 (13 / 2) = Finite (13 / 2)"
  using round64_value [of "13 / 2" 2 7318349394477056] by (simp add: round64_eval)

lemma round64_13_4: "round64 (13 / 4) = Finite (13 / 4)"
  using round64_value [of "13 / 4" 1 7318349394477056] by (simp add: round64_eval)

lemma round64_10: "round64 (10) = Finite (10)"
  using round64_value [of "10" 3 5629499534213120] by (simp add: round64_eval)

lemma round64_3_7: "round64 (37 / 10) = Finite (4165829655317709 / 1125899906842624)"
  using round64_value [of "37 / 10" 1 8331659310635418] by (simp add: round64_eval)

lemma round64_4_1: "round64 (41 / 10) = Finite (2308094809027379 / 562949953421312)"
  using round64_value [of "41 / 10" 2 4616189618054758] by (simp add: round64_eval)

lemma round64_0_1: "round64 (1 / 10) = Finite (3602879701896397 / 36028797018963968)"
  using round64_value [of "1 / 10" "- 4" 7205759403792794] by (simp add: round64_eval)

lemma round64_0_01: "round64 (1 / 100) = Finite (5764607523034235 / 576460752303423488)"
  using round64_value [of "1 / 100" "- 7" 5764607523034235] by (simp add: round64_eval)

lemma round64_g: "round64 (4165829655317709 / 1125899906842624) = Finite (4165829655317709 / 1125899906842624)"
  using round64_value [of "4165829655317709 / 1125899906842624" 1 8331659310635418] by (simp add: round64_eval)

lemma round64_neg_g: "round64 (- (4165829655317709 / 1125899906842624)) = Finite (- (4165829655317709 / 1125899906842624))"
  using round64_value [of "- (4165829655317709 / 1125899906842624)" 1 8331659310635418] by (simp add: round64_eval)

lemma round64_2g: "round64 (4165829655317709 / 562949953421312) = Finite (4165829655317709 / 562949953421312)"
  using round64_value [of "4165829655317709 / 562949953421312" 2 8331659310635418] by (simp add: round64_eval)

lemma round64_3g: "round64 (12497488965953127 / 1125899906842624) = Finite (1562186120744141 / 140737488355328)"
  using round64_value [of "12497488965953127 / 1125899906842624" 3 6248744482976564] by (simp add: round64_eval)

lemma round64_T_3: "round64 (1562186120744141 / 422212465065984) = Finite (8331659310635419 / 2251799813685248)"
  using round64_value [of "1562186120744141 / 422212465065984" 1 8331659310635419] by (simp add: round64_eval)

lemma round64_2g_T: "round64 (- (2082914827658855 / 562949953421312)) = Finite (- (2082914827658855 / 562949953421312))"
  using round64_value [of "- (2082914827658855 / 562949953421312)" 1 8331659310635420] by (simp add: round64_eval)

lemma round64_c: "round64 (- (1 / 1125899906842624)) = Finite (- (1 / 1125899906842624))"
  using round64_value [of "- (1 / 1125899906842624)" "- 50" 4503599627370496] by (simp add: round64_eval)

lemma round64_4_0000000000000001: "round64 (40000000000000001 / 10000000000000000) = Finite (4)"
  using round64_value [of "40000000000000001 / 10000000000000000" 2 4503599627370496] by (simp add: round64_eval)

lemmas round64_values =
  round64_0 round64_3 round64_4 round64_7 round64_neg_3 round64_7_2 round64_13_2 round64_13_4 round64_10 round64_3_7 round64_4_1 round64_0_1 round64_0_01 round64_g round64_neg_g round64_2g round64_3g round64_T_3 round64_2g_T round64_c round64_4_0000000000000001

lemma floor_log2_examples:
  "floor_log2 1 = 0" "floor_log2 (37 / 10) = 1" "floor_log2 (1 / 4) = - 2"
  "floor_log2 (3 / 10) = - 2" "floor_log2 (1 / 10) = - 4" "floor_log2 1024 = 10"
  by (simp_all add: floor_log2_def bit_length.simps)

section \<open>Add Term: validation\<close>

lemmas float_defs =
  py_float_def parse_abs_def parse_decimal_def parse_exponent_def parse_digits_def
  digits_value_def digit_value_def is_digit_def scale10_def ascii_lower_def strip_def
  is_space_def float_strip_def is_float_space_def Let_def round64_values

lemma py_float_examples:
  "py_float ''0.0'' = Some (Finite 0)"
  "py_float ''4.0'' = Some (Finite 4)"
  "py_float ''-0.1'' = Some (Finite (- (3602879701896397 / 2 ^ 55)))"
  "py_float ''4.1'' = Some (Finite (4616189618054758 / 2 ^ 50))"
  "py_float ''4.0000000000000001'' = Some (Finite 4)"
  "py_float ''3.50'' = Some (Finite (7 / 2))"
  "py_float ''1e-2'' = Some (Finite (5764607523034235 / 2 ^ 59))"
  "py_float ''1_0'' = Some (Finite 10)"
  "py_float ''abc'' = None"
  "py_float ''1_'' = None"
  "py_float ''inf'' = Some PosInf"
  "py_float ''-Infinity'' = Some NegInf"
  "py_float ''nan'' = Some NaN"
  by (simp_all add: float_defs)

text \<open>A float that passes the range check of \<open>_add_term\<close> is NaN or lies in [0, 4].\<close>

lemma range_check_passes:
  "(\<not> (float_lt g (Finite 0.0) \<or> float_gt g (Finite 4.0))) =
   (g = NaN \<or> (\<exists>x. g = Finite x \<and> 0 \<le> x \<and> x \<le> 4))"
  by (cases g) (auto simp: float_gt_def)

text \<open>
  \<open>_add_term\<close> calls the store exactly when a student is selected, the term name and the
  GPA text are not blank, and the GPA text parses to a float that passes the range check;
  when it does not call the store, nothing changes.
\<close>

lemma add_term_store_call:
  "(\<exists>r t g. Add_term_grade r t g \<in> set (snd (add_term a))) =
   (selected_student_row_id a \<noteq> None \<and> strip (term_name_var a) \<noteq> [] \<and>
    strip (term_gpa_var a) \<noteq> [] \<and>
    (\<exists>g. py_float (strip (term_gpa_var a)) = Some g \<and>
         (g = NaN \<or> (\<exists>x. g = Finite x \<and> 0 \<le> x \<and> x \<le> 4))))"
  unfolding range_check_passes [symmetric]
  by (auto simp: add_term_def Let_def split: option.splits prod.splits error.splits)

lemma add_term_no_store_call:
  "\<not> (\<exists>r t g. Add_term_grade r t g \<in> set (snd (add_term a))) \<Longrightarrow> fst (add_term a) = a"
  by (auto simp: add_term_def Let_def split: option.splits prod.splits error.splits)

text \<open>
  The boundary values 0.0 and 4.0 reach the store and are stored; -0.1, 4.1 and a text
  that is no number are rejected with their own message, the state unchanged.
\<close>

lemma add_term_boundaries:
  "add_term (example_app ''0.0'') =
     ((example_app '''')\<lparr>db := snd (add_term_grade example_students 1 ''Fall'' 0), term_name_var := []\<rparr>,
      [Add_term_grade 1 ''Fall'' (Finite 0), Refresh_terms 1, Plot_student 1, Refresh_class_stats])"
  "add_term (example_app ''4.0'') =
     ((example_app '''')\<lparr>db := snd (add_term_grade example_students 1 ''Fall'' 4), term_name_var := []\<rparr>,
      [Add_term_grade 1 ''Fall'' (Finite 4), Refresh_terms 1, Plot_student 1, Refresh_class_stats])"
  "add_term (example_app ''-0.1'') =
     (example_app ''-0.1'', [Showerror ''Validation'' ''GPA must be between 0.0 and 4.0.''])"
  "add_term (example_app ''4.1'') =
     (example_app ''4.1'', [Showerror ''Validation'' ''GPA must be between 0.0 and 4.0.''])"
  "add_term (example_app ''abc'') =
     (example_app ''abc'', [Showerror ''Validation'' ''GPA must be a number (e.g., 3.50).''])"
  by (simp_all add: add_term_def example_app_def example_students_eq float_defs float_gt_def
      add_term_grade_def next_rowid_def)

text \<open>
  C2. The text \<open>nan\<close> parses to NaN, which is no number of [0.0, 4.0]; both comparisons
  of the range check are false for it, so \<open>_add_term\<close> does not reject it and calls the
  store. The store refuses the row, and the dialogue shown is the one for a duplicate term.
\<close>

theorem add_term_nan_reaches_store:
  "py_float ''nan'' = Some NaN \<and>
   add_term (example_app ''nan'') =
     (example_app ''nan'',
      [Add_term_grade 1 ''Fall'' NaN,
       Showerror ''Duplicate''
         ''That term already exists for this student. Use a different term name.''])"
  by (simp add: add_term_def example_app_def float_defs float_gt_def)

section \<open>The chart renderer\<close>

lemmas float_ops = fsub_def sqlite_avg_of_def platform_of_def round64_values

lemma plot_student_empty:
  "list_terms_for_student d r = [] \<Longrightarrow> plot_student P d r = plot_empty"
  by (simp add: plot_student_def plot_empty_def)

lemma plot_student_nonempty:
  "list_terms_for_student d r \<noteq> [] \<Longrightarrow>
   plot_student P d r =
     [Clear, Set_title ''Term GPA Trend'', Set_xlabel ''Term'', Set_ylabel ''GPA'', Set_ylim 0 4,
      Plot [0 ..< length (list_terms_for_student d r)] (map snd (list_terms_for_student d r)) ''o'',
      Set_xticks [0 ..< length (list_terms_for_student d r)],
      Set_xticklabels (map fst (list_terms_for_student d r)) 30 ''right'',
      Axhline (py_truediv (py_sum P (map Finite (map snd (list_terms_for_student d r))))
                 (length (list_terms_for_student d r))) ''--'',
      Text 0.02 0.95
        (Avg_2f (py_truediv (py_sum P (map Finite (map snd (list_terms_for_student d r))))
                   (length (list_terms_for_student d r)))),
      Canvas_draw]"
  by (simp add: plot_student_def Let_def)

text \<open>Python's sum of three floats 3.7, and of the floats 3.0 and 3.5, in either way of adding.\<close>

lemma python_sum_37:
  "python_sum m [Finite gpa_3_7, Finite gpa_3_7, Finite gpa_3_7] =
   Finite (6248744482976564 / 2 ^ 49)"
  by (cases m) (simp_all add: gpa_3_7_def float_ops)

lemma python_sum_3_35: "python_sum m [Finite 3, Finite (7 / 2)] = Finite (13 / 2)"
  by (cases m) (simp_all add: float_ops)

lemma mean_37: "mean [gpa_3_7, gpa_3_7, gpa_3_7] = gpa_3_7"
  by (simp add: mean_def)

lemma upt_3: "[0 ..< 3] = [0, 1, 2]" "[0 ..< 2] = [0, 1]"
  by (simp_all add: upt_rec)

lemma example_37_terms_list:
  "list_terms_for_student example_37_terms 2 =
     [(''Fall'', gpa_3_7), (''Spring'', gpa_3_7), (''Summer'', gpa_3_7)]"
  by (simp add: example_37_terms_eq list_terms_for_student_def)

lemma example_trend_half_list:
  "list_terms_for_student example_trend_half 1 = [(''Fall'', 3), (''Spring'', 7 / 2)]"
  "list_terms_for_student example_trend_half 2 = []"
  by (simp_all add: example_trend_half_eq list_terms_for_student_def)

lemma plot_37:
  "filter plotted (plot_student (platform_of a b) example_37_terms 2) =
     [Plot [0, 1, 2] [gpa_3_7, gpa_3_7, gpa_3_7] ''o'',
      Axhline (Finite (8331659310635419 / 2 ^ 51)) ''--'',
      Text 0.02 0.95 (Avg_2f (Finite (8331659310635419 / 2 ^ 51)))]"
  by (simp add: plot_student_nonempty example_37_terms_list platform_of_def python_sum_37 upt_3
      round64_values)

text \<open>
  C9, as the claim states it: for a student with three terms of GPA 3.7, the float that
  the literal 3.7 denotes, the arithmetic mean of the plotted values is that float, but
  the reference line and the annotation are at the next float above it,
  3.7000000000000006, in either way Python adds.
\<close>

theorem mean_line_is_rounded:
  "round64 (37 / 10) = Finite gpa_3_7 \<and>
   mean (map snd (list_terms_for_student example_37_terms 2)) = gpa_3_7 \<and>
   filter plotted (plot_student (platform_of Compensated Left_to_right) example_37_terms 2) =
     [Plot [0, 1, 2] [gpa_3_7, gpa_3_7, gpa_3_7] ''o'',
      Axhline (Finite (8331659310635419 / 2 ^ 51)) ''--'',
      Text 0.02 0.95 (Avg_2f (Finite (8331659310635419 / 2 ^ 51)))] \<and>
   filter plotted (plot_student (platform_of Compensated Compensated) example_37_terms 2) =
     [Plot [0, 1, 2] [gpa_3_7, gpa_3_7, gpa_3_7] ''o'',
      Axhline (Finite (8331659310635419 / 2 ^ 51)) ''--'',
      Text 0.02 0.95 (Avg_2f (Finite (8331659310635419 / 2 ^ 51)))] \<and>
   gpa_3_7 < 8331659310635419 / 2 ^ 51"
proof (intro conjI)
  show "round64 (37 / 10) = Finite gpa_3_7"
    by (simp add: gpa_3_7_def round64_values)
  show "mean (map snd (list_terms_for_student example_37_terms 2)) = gpa_3_7"
    by (simp add: example_37_terms_list mean_37)
  show "gpa_3_7 < 8331659310635419 / 2 ^ 51"
    by (simp add: gpa_3_7_def)
qed (rule plot_37)+

text \<open>
  C9, amended. When the student has no term, the renderer clears the axes, sets the
  title, the labels and the limits and draws, and does nothing else. Otherwise it makes
  exactly these calls: the same setting of the axes; the plot of the GPA values in the
  order of the term list, at the positions 0, 1, ... and with markers; the ticks and
  the term names as their labels; a dashed horizontal line at the float that Python
  computes as the sum of the plotted values divided by their count; the text of that
  float; the drawing. That float is the arithmetic mean of the plotted values whenever
  the sum and the division are exact, as for 3.0 and 3.5, which give 3.25.
\<close>

theorem plot_student_chart:
  "(list_terms_for_student d r = [] \<longrightarrow> plot_student P d r = plot_empty) \<and>
   (list_terms_for_student d r \<noteq> [] \<longrightarrow>
      plot_student P d r =
        [Clear, Set_title ''Term GPA Trend'', Set_xlabel ''Term'', Set_ylabel ''GPA'', Set_ylim 0 4,
         Plot [0 ..< length (list_terms_for_student d r)]
           (map snd (list_terms_for_student d r)) ''o'',
         Set_xticks [0 ..< length (list_terms_for_student d r)],
         Set_xticklabels (map fst (list_terms_for_student d r)) 30 ''right'',
         Axhline (py_truediv (py_sum P (map Finite (map snd (list_terms_for_student d r))))
                    (length (list_terms_for_student d r))) ''--'',
         Text 0.02 0.95
           (Avg_2f (py_truediv (py_sum P (map Finite (map snd (list_terms_for_student d r))))
                      (length (list_terms_for_student d r)))),
         Canvas_draw]) \<and>
   (list_terms_for_student d r \<noteq> [] \<and>
    py_truediv (py_sum P (map Finite (map snd (list_terms_for_student d r))))
      (length (list_terms_for_student d r)) =
    Finite (mean (map snd (list_terms_for_student d r))) \<longrightarrow>
      filter plotted (plot_student P d r) =
        [Plot [0 ..< length (list_terms_for_student d r)]
           (map snd (list_terms_for_student d r)) ''o'',
         Axhline (Finite (mean (map snd (list_terms_for_student d r)))) ''--'',
         Text 0.02 0.95 (Avg_2f (Finite (mean (map snd (list_terms_for_student d r)))))]) \<and>
   filter plotted (plot_student (platform_of a b) example_trend_half 1) =
     [Plot [0, 1] [3.0, 3.5] ''o'', Axhline (Finite 3.25) ''--'',
      Text 0.02 0.95 (Avg_2f (Finite 3.25))]"
proof (intro conjI impI)
  assume "list_terms_for_student d r = []"
  then show "plot_student P d r = plot_empty"
    by (rule plot_student_empty)
next
  assume "list_terms_for_student d r \<noteq> []"
  then show "plot_student P d r =
        [Clear, Set_title ''Term GPA Trend'', Set_xlabel ''Term'', Set_ylabel ''GPA'', Set_ylim 0 4,
         Plot [0 ..< length (list_terms_for_student d r)]
           (map snd (list_terms_for_student d r)) ''o'',
         Set_xticks [0 ..< length (list_terms_for_student d r)],
         Set_xticklabels (map fst (list_terms_for_student d r)) 30 ''right'',
         Axhline (py_truediv (py_sum P (map Finite (map snd (list_terms_for_student d r))))
                    (length (list_terms_for_student d r))) ''--'',
         Text 0.02 0.95
           (Avg_2f (py_truediv (py_sum P (map Finite (map snd (list_terms_for_student d r))))
                      (length (list_terms_for_student d r)))),
         Canvas_draw]"
    by (rule plot_student_nonempty)
next
  assume h: "list_terms_for_student d r \<noteq> [] \<and>
    py_truediv (py_sum P (map Finite (map snd (list_terms_for_student d r))))
      (length (list_terms_for_student d r)) =
    Finite (mean (map snd (list_terms_for_student d r)))"
  then have ne: "list_terms_for_student d r \<noteq> []"
    and ex: "py_truediv (py_sum P (map Finite (map snd (list_terms_for_student d r))))
      (length (list_terms_for_student d r)) =
      Finite (mean (map snd (list_terms_for_student d r)))"
    by simp_all
  show "filter plotted (plot_student P d r) =
        [Plot [0 ..< length (list_terms_for_student d r)]
           (map snd (list_terms_for_student d r)) ''o'',
         Axhline (Finite (mean (map snd (list_terms_for_student d r)))) ''--'',
         Text 0.02 0.95 (Avg_2f (Finite (mean (map snd (list_terms_for_student d r)))))]"
    unfolding plot_student_nonempty [OF ne] ex by simp
next
  show "filter plotted (plot_student (platform_of a b) example_trend_half 1) =
     [Plot [0, 1] [3.0, 3.5] ''o'', Axhline (Finite 3.25) ''--'',
      Text 0.02 0.95 (Avg_2f (Finite 3.25))]"
    by (simp add: plot_student_nonempty example_trend_half_list platform_of_def python_sum_3_35
        upt_3 round64_values)
qed

theorem plot_student_chart_witness:
  "list_terms_for_student example_trend_half 2 = [] \<and>
   plot_student (platform_of Compensated Left_to_right) example_trend_half 2 = plot_empty \<and>
   list_terms_for_student example_trend_half 1 \<noteq> [] \<and>
   py_truediv
     (py_sum (platform_of Compensated Left_to_right)
        (map Finite (map snd (list_terms_for_student example_trend_half 1))))
     (length (list_terms_for_student example_trend_half 1)) =
   Finite (mean (map snd (list_terms_for_student example_trend_half 1))) \<and>
   filter plotted (plot_student (platform_of Compensated Left_to_right) example_trend_half 1) =
     [Plot [0, 1] [3, 7 / 2] ''o'', Axhline (Finite (13 / 4)) ''--'',
      Text 0.02 0.95 (Avg_2f (Finite (13 / 4)))]"
proof -
  let ?P = "platform_of Compensated Left_to_right"
  have e: "list_terms_for_student example_trend_half 2 = []"
    by (rule example_trend_half_list(2))
  have ne: "list_terms_for_student example_trend_half 1 \<noteq> []"
    by (simp add: example_trend_half_list(1))
  have m: "mean (map snd (list_terms_for_student example_trend_half 1)) = 13 / 4"
    by (simp add: example_trend_half_list(1) mean_def)
  have x: "py_truediv (py_sum ?P (map Finite (map snd (list_terms_for_student example_trend_half 1))))
     (length (list_terms_for_student example_trend_half 1)) =
     Finite (mean (map snd (list_terms_for_student example_trend_half 1)))"
    unfolding m by (simp add: example_trend_half_list(1) platform_of_def python_sum_3_35 round64_values)
  note c = plot_student_chart [of example_trend_half 2 ?P Compensated Left_to_right]
  from c have "list_terms_for_student example_trend_half 2 = [] \<longrightarrow>
      plot_student ?P example_trend_half 2 = plot_empty"
    by (elim conjE)
  with e have 1: "plot_student ?P example_trend_half 2 = plot_empty"
    by simp
  note c' = plot_student_chart [of example_trend_half 1 ?P Compensated Left_to_right]
  from c' have "list_terms_for_student example_trend_half 1 \<noteq> [] \<and>
    py_truediv (py_sum ?P (map Finite (map snd (list_terms_for_student example_trend_half 1))))
      (length (list_terms_for_student example_trend_half 1)) =
    Finite (mean (map snd (list_terms_for_student example_trend_half 1))) \<longrightarrow>
      filter plotted (plot_student ?P example_trend_half 1) =
        [Plot [0 ..< length (list_terms_for_student example_trend_half 1)]
           (map snd (list_terms_for_student example_trend_half 1)) ''o'',
         Axhline (Finite (mean (map snd (list_terms_for_student example_trend_half 1)))) ''--'',
         Text 0.02 0.95 (Avg_2f (Finite (mean (map snd (list_terms_for_student example_trend_half 1)))))]"
    by (elim conjE)
  with ne x have "filter plotted (plot_student ?P example_trend_half 1) =
        [Plot [0 ..< length (list_terms_for_student example_trend_half 1)]
           (map snd (list_terms_for_student example_trend_half 1)) ''o'',
         Axhline (Finite (mean (map snd (list_terms_for_student example_trend_half 1)))) ''--'',
         Text 0.02 0.95 (Avg_2f (Finite (mean (map snd (list_terms_for_student example_trend_half 1)))))]"
    by blast
  then have 2: "filter plotted (plot_student ?P example_trend_half 1) =
     [Plot [0, 1] [3, 7 / 2] ''o'', Axhline (Finite (13 / 4)) ''--'',
      Text 0.02 0.95 (Avg_2f (Finite (13 / 4)))]"
    unfolding m by (simp add: example_trend_half_list(1) upt_3)
  show ?thesis
    by (intro conjI e 1 ne x 2)
qed

section \<open>The order of a student's terms\<close>

lemma example_trend_terms:
  "list_terms_for_student example_trend 1 = [(''Fall'', 3), (''Spring'', 38 / 10)]"
  "list_terms_for_student example_trend 2 = []"
  by (simp_all add: example_trend_eq list_terms_for_student_def)

lemma example_trend_rev_eq:
  "example_trend_rev =
     \<lparr>students =
        [\<lparr>sid = 1, student_id = ''S1'', name = ''Alice'', address = ''1 Main St'', class_name = ''A''\<rparr>,
         \<lparr>sid = 2, student_id = ''S2'', name = ''Bob'', address = [], class_name = ''A''\<rparr>],
      terms =
        [\<lparr>tid = 1, owner = 1, term_name = ''Spring'', gpa = 38 / 10\<rparr>,
         \<lparr>tid = 2, owner = 1, term_name = ''Fall'', gpa = 3\<rparr>],
      students_seq = 2, terms_seq = 2\<rparr>"
  by (simp add: example_trend_rev_def example_students_eq store_defs)

lemma example_trend_rev_terms:
  "list_terms_for_student example_trend_rev 1 = [(''Spring'', 38 / 10), (''Fall'', 3)]"
  by (simp add: example_trend_rev_eq list_terms_for_student_def)

lemma Fall_less_Spring: "''Fall'' < ''Spring''"
  by simp

text \<open>
  C7, as the claim states its example: with the terms Fall and Spring added in this
  order, the order returned is also the alphabetical one, since Fall precedes Spring; it
  is not the case that Spring precedes Fall.
\<close>

theorem fall_spring_is_alphabetical:
  "list_terms_for_student example_trend 1 = [(''Fall'', 3), (''Spring'', 38 / 10)] \<and>
   sort_key fst (list_terms_for_student example_trend 1) = list_terms_for_student example_trend 1 \<and>
   \<not> ''Spring'' < ''Fall''"
  by (simp add: example_trend_terms(1))

text \<open>
  C7, amended. A term added to a student becomes the last of the student's term list,
  whatever its name, so the list is in the order of creation, and the chart plots the
  values in this order. Fall and Spring added in this order are plotted as 3.0, 3.8;
  Spring and Fall added in this order are plotted as 3.8, 3.0, although Fall precedes
  Spring alphabetically.
\<close>

theorem terms_in_creation_order:
  "(add_term_grade d r t g = (None, d') \<longrightarrow>
      list_terms_for_student d' r = list_terms_for_student d r @ [(strip t, g)] \<and>
      Plot [0 ..< Suc (length (list_terms_for_student d r))]
        (map snd (list_terms_for_student d r) @ [g]) ''o'' \<in> set (plot_student P d' r)) \<and>
   list_terms_for_student example_trend 1 = [(''Fall'', 3.0), (''Spring'', 3.8)] \<and>
   Plot [0, 1] [3.0, 3.8] ''o'' \<in> set (plot_student P example_trend 1) \<and>
   list_terms_for_student example_trend_rev 1 = [(''Spring'', 3.8), (''Fall'', 3.0)] \<and>
   ''Fall'' < ''Spring'' \<and>
   Plot [0, 1] [3.8, 3.0] ''o'' \<in> set (plot_student P example_trend_rev 1)"
proof (intro conjI impI)
  assume ok: "add_term_grade d r t g = (None, d')"
  show l: "list_terms_for_student d' r = list_terms_for_student d r @ [(strip t, g)]"
    using ok by (rule list_terms_add(1))
  then have "list_terms_for_student d' r \<noteq> []"
    by simp
  then show "Plot [0 ..< Suc (length (list_terms_for_student d r))]
        (map snd (list_terms_for_student d r) @ [g]) ''o'' \<in> set (plot_student P d' r)"
    by (simp add: plot_student_nonempty l)
next
  have n: "[0 ..< 2] = [0, Suc 0]"
    by (simp add: upt_rec)
  show "list_terms_for_student example_trend 1 = [(''Fall'', 3.0), (''Spring'', 3.8)]"
    by (simp add: example_trend_terms(1))
  show "Plot [0, 1] [3.0, 3.8] ''o'' \<in> set (plot_student P example_trend 1)"
    by (simp add: plot_student_nonempty example_trend_terms(1) n)
  show "list_terms_for_student example_trend_rev 1 = [(''Spring'', 3.8), (''Fall'', 3.0)]"
    by (simp add: example_trend_rev_terms)
  show "''Fall'' < ''Spring''"
    by (rule Fall_less_Spring)
  show "Plot [0, 1] [3.8, 3.0] ''o'' \<in> set (plot_student P example_trend_rev 1)"
    by (simp add: plot_student_nonempty example_trend_rev_terms n)
qed

theorem terms_in_creation_order_witness:
  "add_term_grade (snd (add_term_grade example_students 1 ''Spring'' 3.8)) 1 ''Fall'' 3.0 =
     (None, example_trend_rev) \<and>
   list_terms_for_student (snd (add_term_grade example_students 1 ''Spring'' 3.8)) 1 =
     [(''Spring'', 3.8)] \<and>
   list_terms_for_student example_trend_rev 1 = [(''Spring'', 3.8)] @ [(strip ''Fall'', 3.0)]"
proof -
  have h: "add_term_grade (snd (add_term_grade example_students 1 ''Spring'' 3.8)) 1 ''Fall'' 3.0 =
     (None, example_trend_rev)"
    by (simp add: example_trend_rev_def example_students_eq store_defs)
  have b: "list_terms_for_student (snd (add_term_grade example_students 1 ''Spring'' 3.8)) 1 =
     [(''Spring'', 3.8)]"
    by (simp add: example_students_eq store_defs list_terms_for_student_def)
  from h b
    terms_in_creation_order [of "snd (add_term_grade example_students 1 ''Spring'' 3.8)" 1
      "''Fall''" "3.0" example_trend_rev "platform_of Compensated Left_to_right"]
  show ?thesis
    by simp
qed

section \<open>Class statistics\<close>










subsection \<open>The least and the greatest float of a list\<close>







subsection \<open>When the averages are exact\<close>






subsection \<open>The example classes\<close>















section \<open>Searching\<close>

lemma like_literal_prefix:
  "CHR ''%'' \<notin> set q \<Longrightarrow> CHR ''_'' \<notin> set q \<Longrightarrow>
   like (q @ ''%'') s = prefix (map ascii_lower q) (map ascii_lower s)"
proof (induction q arbitrary: s)
  case Nil
  then show ?case by (simp add: like_percent)
next
  case (Cons p ps)
  then have p: "p \<noteq> CHR ''%''" "p \<noteq> CHR ''_''"
    and ps: "CHR ''%'' \<notin> set ps" "CHR ''_'' \<notin> set ps"
    by auto
  show ?case
  proof (cases s)
    case Nil
    with p show ?thesis by simp
  next
    case (Cons c cs)
    with p Cons.IH [OF ps] show ?thesis by simp
  qed
qed

lemma like_percent_suffix: "like (CHR ''%'' # p) s = (\<exists>t. suffix t s \<and> like p t)"
proof (induction s)
  case Nil
  then show ?case by (cases p) simp_all
next
  case (Cons c cs)
  have "like (CHR ''%'' # p) (c # cs) = (like p (c # cs) \<or> like (CHR ''%'' # p) cs)"
    by simp
  also have "\<dots> = (like p (c # cs) \<or> (\<exists>t. suffix t cs \<and> like p t))"
    by (simp only: Cons.IH)
  also have "\<dots> = (\<exists>t. suffix t (c # cs) \<and> like p t)"
    by (auto simp: suffix_Cons)
  finally show ?case .
qed

lemma suffix_map_prefix:
  "(\<exists>t. suffix t s \<and> prefix a (map f t)) = sublist a (map f s)"
proof
  assume "\<exists>t. suffix t s \<and> prefix a (map f t)"
  then obtain t where t: "suffix t s" "prefix a (map f t)"
    by blast
  from t(1) have "suffix (map f t) (map f s)"
    by (rule map_mono_suffix)
  with t(2) show "sublist a (map f s)"
    unfolding sublist_altdef' by blast
next
  assume "sublist a (map f s)"
  then obtain u where u: "suffix u (map f s)" "prefix a u"
    unfolding sublist_altdef' by blast
  from u(1) obtain v where "map f s = v @ u"
    by (auto simp: suffix_def)
  then obtain s1 t where "s = s1 @ t" "map f t = u"
    by (auto simp: map_eq_append_conv)
  with u(2) show "\<exists>t. suffix t s \<and> prefix a (map f t)"
    by (auto simp: suffix_def)
qed

text \<open>
  For a text without \<open>%\<close> and \<open>_\<close>, the pattern of the search matches the strings
  that hold the text as a substring, upper and lower case of the ASCII letters being equal.
\<close>

lemma like_contains:
  assumes "CHR ''%'' \<notin> set q" "CHR ''_'' \<notin> set q"
  shows "like (''%'' @ q @ ''%'') s = contains_nocase q s"
proof -
  have "like (''%'' @ q @ ''%'') s = (\<exists>t. suffix t s \<and> like (q @ ''%'') t)"
    by (simp add: like_percent_suffix)
  also have "\<dots> = (\<exists>t. suffix t s \<and> prefix (map ascii_lower q) (map ascii_lower t))"
    by (simp only: like_literal_prefix [OF assms])
  also have "\<dots> = contains_nocase q s"
    unfolding contains_nocase_def by (rule suffix_map_prefix)
  finally show ?thesis .
qed

lemma search_filter_listing:
  "search_students_by_class_like d c q =
   filter (\<lambda>s. like (''%'' @ strip q @ ''%'') (name s) \<or> like (''%'' @ strip q @ ''%'') (student_id s))
     (list_students_by_class d c)"
proof -
  have "filter (\<lambda>s. class_name s = c \<and>
           (like (''%'' @ strip q @ ''%'') (name s) \<or> like (''%'' @ strip q @ ''%'') (student_id s)))
          (students d) =
        filter (\<lambda>s. like (''%'' @ strip q @ ''%'') (name s) \<or> like (''%'' @ strip q @ ''%'') (student_id s))
          (filter (\<lambda>s. class_name s = c) (students d))"
    by (auto intro: filter_cong)
  then show ?thesis
    unfolding search_students_by_class_like_def list_students_by_class_def Let_def
    by (simp only: filter_sort)
qed

lemma not_contains_nocase:
  "CHR ''_'' \<notin> set (map ascii_lower s) \<Longrightarrow> \<not> contains_nocase ''_'' s"
proof
  assume n: "CHR ''_'' \<notin> set (map ascii_lower s)" and c: "contains_nocase ''_'' s"
  from c have "set (map ascii_lower ''_'') \<subseteq> set (map ascii_lower s)"
    unfolding contains_nocase_def by (rule set_mono_sublist)
  with n show False
    by (simp add: ascii_lower_def)
qed

text \<open>
  C5, as the claim states it: the query \<open>_\<close> returns both students of the example,
  though no name and no id holds an underscore.
\<close>

theorem search_underscore_matches_all:
  "map name (search_students_by_class_like example_students ''A'' ''_'') = [''Alice'', ''Bob''] \<and>
   \<not> contains_nocase ''_'' ''Alice'' \<and> \<not> contains_nocase ''_'' ''S1'' \<and>
   \<not> contains_nocase ''_'' ''Bob'' \<and> \<not> contains_nocase ''_'' ''S2''"
proof (intro conjI)
  show "map name (search_students_by_class_like example_students ''A'' ''_'') = [''Alice'', ''Bob'']"
    by (simp add: search_students_by_class_like_def example_students_eq strip_def is_space_def
        ascii_lower_def)
qed (rule not_contains_nocase, simp add: ascii_lower_def)+

text \<open>
  C5, amended. The search returns, in the order of the class listing, which is ordered
  by name, the students of the class whose name or external id matches the \<open>LIKE\<close>
  pattern \<open>%q%\<close>, \<open>q\<close> being the query without its leading and trailing whitespace.
  When this \<open>q\<close> holds neither \<open>%\<close> nor \<open>_\<close>, these are exactly the students whose name
  or id holds \<open>q\<close> as a substring, upper and lower case of the ASCII letters being equal.
  Among Alice and Bob with the ids S1 and S2, \<open>b\<close> finds Bob only and \<open>S1\<close> Alice only.
\<close>

theorem search_substring:
  "search_students_by_class_like d c q =
     filter (\<lambda>s. like (''%'' @ strip q @ ''%'') (name s) \<or> like (''%'' @ strip q @ ''%'') (student_id s))
       (list_students_by_class d c) \<and>
   sorted (map name (search_students_by_class_like d c q)) \<and>
   (CHR ''%'' \<notin> set (strip q) \<and> CHR ''_'' \<notin> set (strip q) \<longrightarrow>
      search_students_by_class_like d c q =
        filter (\<lambda>s. contains_nocase (strip q) (name s) \<or> contains_nocase (strip q) (student_id s))
          (list_students_by_class d c)) \<and>
   map name (search_students_by_class_like example_students ''A'' ''b'') = [''Bob''] \<and>
   map name (search_students_by_class_like example_students ''A'' ''S1'') = [''Alice'']"
proof (intro conjI impI)
  show "search_students_by_class_like d c q =
     filter (\<lambda>s. like (''%'' @ strip q @ ''%'') (name s) \<or> like (''%'' @ strip q @ ''%'') (student_id s))
       (list_students_by_class d c)"
    by (rule search_filter_listing)
  show "sorted (map name (search_students_by_class_like d c q))"
    by (simp add: search_students_by_class_like_def Let_def)
  show "map name (search_students_by_class_like example_students ''A'' ''b'') = [''Bob'']"
    by (simp add: search_students_by_class_like_def example_students_eq strip_def is_space_def
        ascii_lower_def)
  show "map name (search_students_by_class_like example_students ''A'' ''S1'') = [''Alice'']"
    by (simp add: search_students_by_class_like_def example_students_eq strip_def is_space_def
        ascii_lower_def)
next
  assume w: "CHR ''%'' \<notin> set (strip q) \<and> CHR ''_'' \<notin> set (strip q)"
  then have a: "CHR ''%'' \<notin> set (strip q)" and b: "CHR ''_'' \<notin> set (strip q)"
    by simp_all
  have "like (''%'' @ strip q @ ''%'') s = contains_nocase (strip q) s" for s
    by (rule like_contains [OF a b])
  then show "search_students_by_class_like d c q =
        filter (\<lambda>s. contains_nocase (strip q) (name s) \<or> contains_nocase (strip q) (student_id s))
          (list_students_by_class d c)"
    by (simp only: search_filter_listing)
qed

theorem search_substring_witness:
  "CHR ''%'' \<notin> set (strip '' b '') \<and> CHR ''_'' \<notin> set (strip '' b '') \<and>
   map name (search_students_by_class_like example_students ''A'' '' b '') = [''Bob''] \<and>
   map name
     (filter (\<lambda>s. contains_nocase (strip '' b '') (name s) \<or>
                  contains_nocase (strip '' b '') (student_id s))
        (list_students_by_class example_students ''A'')) = [''Bob'']"
proof -
  have s: "strip '' b '' = ''b''"
    by (simp add: strip_def is_space_def)
  have h: "CHR ''%'' \<notin> set (strip '' b '') \<and> CHR ''_'' \<notin> set (strip '' b '')"
    by (simp add: s)
  have e: "map name (search_students_by_class_like example_students ''A'' '' b '') = [''Bob'']"
    by (simp add: search_students_by_class_like_def example_students_eq strip_def is_space_def
        ascii_lower_def)
  from search_substring [of example_students "''A''" "'' b ''"] h
  have "search_students_by_class_like example_students ''A'' '' b '' =
        filter (\<lambda>s. contains_nocase (strip '' b '') (name s) \<or>
                     contains_nocase (strip '' b '') (student_id s))
          (list_students_by_class example_students ''A'')"
    by blast
  with h e show ?thesis
    by simp
qed

section \<open>The constraints of the schema hold on every state the store produces\<close>

lemma wf_empty_db: "wf_db empty_db"
  by (simp add: wf_db_def empty_db_def)

lemma list_all_le_mono:
  "list_all (\<lambda>x. f x \<le> a) xs \<Longrightarrow> a \<le> b \<Longrightarrow> list_all (\<lambda>x. f x \<le> (b :: int)) xs"
  by (induction xs) auto

lemma seq_less_next_rowid: "s < next_rowid ids s"
  using fold_max_ge_init [of s ids] by (simp add: next_rowid_def)

lemma wf_add_student: "wf_db d \<Longrightarrow> wf_db (snd (add_student d i n a c))"
proof (cases "fst (add_student d i n a c)")
  case (Some e)
  assume "wf_db d"
  moreover from Some have "snd (add_student d i n a c) = d"
    by (auto simp: add_student_def Let_def split: if_splits)
  ultimately show ?thesis by simp
next
  case None
  assume wf: "wf_db d"
  let ?k = "next_rowid (map sid (students d)) (students_seq d)"
  from None have ok: "add_student d i n a c = (None, snd (add_student d i n a c))"
    by (metis prod.collapse)
  note eq = add_student_ok(1) [OF ok] and fresh = add_student_ok(2) [OF ok]
  have k: "?k \<notin> set (map sid (students d))"
    by (rule next_rowid_notin)
  have le: "list_all (\<lambda>s. sid s \<le> ?k) (students d)"
    using wf seq_less_next_rowid [of "students_seq d" "map sid (students d)"]
    by (auto simp: wf_db_def intro: list_all_le_mono)
  have "wf_db (d\<lparr>students := students d @ [\<lparr>sid = ?k, student_id = strip i, name = strip n,
                    address = strip a, class_name = strip c\<rparr>], students_seq := ?k\<rparr>)"
    using wf k fresh le by (auto simp: wf_db_def list_all_iff)
  with eq show ?thesis by simp
qed

lemma wf_add_term_grade: "wf_db d \<Longrightarrow> wf_db (snd (add_term_grade d r t g))"
proof (cases "fst (add_term_grade d r t g)")
  case (Some e)
  assume "wf_db d"
  moreover from Some have "snd (add_term_grade d r t g) = d"
    by (auto simp: add_term_grade_def Let_def split: if_splits)
  ultimately show ?thesis by simp
next
  case None
  assume wf: "wf_db d"
  let ?k = "next_rowid (map tid (terms d)) (terms_seq d)"
  from None have ok: "add_term_grade d r t g = (None, snd (add_term_grade d r t g))"
    by (metis prod.collapse)
  note eq = add_term_grade_ok(1) [OF ok] and fresh = add_term_grade_ok(2) [OF ok]
    and fk = add_term_grade_ok(3) [OF ok]
  have k: "?k \<notin> set (map tid (terms d))"
    by (rule next_rowid_notin)
  have le: "list_all (\<lambda>t. tid t \<le> ?k) (terms d)"
    using wf seq_less_next_rowid [of "terms_seq d" "map tid (terms d)"]
    by (auto simp: wf_db_def intro: list_all_le_mono)
  have "wf_db (d\<lparr>terms := terms d @ [\<lparr>tid = ?k, owner = r, term_name = strip t, gpa = g\<rparr>],
                 terms_seq := ?k\<rparr>)"
    using wf k fresh fk le by (auto simp: wf_db_def list_all_iff)
  with eq show ?thesis by simp
qed

lemma wf_delete_term: "wf_db d \<Longrightarrow> wf_db (snd (delete_term d r n))"
  by (auto simp: wf_db_def delete_term_def list_all_iff distinct_map_filter)

lemma wf_delete_student: "wf_db d \<Longrightarrow> wf_db (snd (delete_student d r))"
  by (auto simp: wf_db_def delete_student_def list_all_iff distinct_map_filter)

lemma wf_example_sessions:
  "wf_db example_students" "wf_db example_stats" "wf_db example_trend" "wf_db example_trend_rev"
  "wf_db example_trend_half" "wf_db example_37_class" "wf_db example_37_terms"
  unfolding example_students_def example_stats_def example_trend_def example_trend_rev_def
    example_trend_half_def example_37_class_def example_37_terms_def
  by (intro wf_add_student wf_add_term_grade wf_empty_db)+

end
